theory Spec2Isabelle
  imports Complex_Main "HOL-Library.Word"
begin

section \<open>JavaScript values used by the payment core\<close>

text \<open>
  A JavaScript \<open>number\<close> is a double. The numbers of this program are Unix times, HTTP
  status codes and delays; they are only compared, tested for truthiness and added to
  small integers, so a finite double is modelled by the rational it denotes and the three
  special values are kept apart.
\<close>

datatype number = Num rat | NaN | PosInfinity | NegInfinity

text \<open>\<open>!x\<close> on a number: zero and NaN are falsy.\<close>

fun truthy_number :: "number \<Rightarrow> bool" where
  "truthy_number (Num r) = (r \<noteq> 0)"
| "truthy_number NaN = False"
| "truthy_number PosInfinity = True"
| "truthy_number NegInfinity = True"

text \<open>\<open>a <= b\<close> on numbers: every comparison with NaN is false.\<close>

fun number_le :: "number \<Rightarrow> number \<Rightarrow> bool" where
  "number_le NaN b = False"
| "number_le a NaN = False"
| "number_le NegInfinity b = True"
| "number_le a PosInfinity = True"
| "number_le PosInfinity b = False"
| "number_le a NegInfinity = False"
| "number_le (Num a) (Num b) = (a \<le> b)"

text \<open>\<open>a > b\<close> on numbers, used to state what the specification asks of a deadline.\<close>

fun number_gt :: "number \<Rightarrow> number \<Rightarrow> bool" where
  "number_gt NaN b = False"
| "number_gt a NaN = False"
| "number_gt PosInfinity PosInfinity = False"
| "number_gt PosInfinity b = True"
| "number_gt a PosInfinity = False"
| "number_gt NegInfinity b = False"
| "number_gt a NegInfinity = True"
| "number_gt (Num a) (Num b) = (a > b)"

text \<open>
  An optional string argument is an \<open>option\<close>: \<open>None\<close> is \<open>undefined\<close>. A string is
  truthy when it is not empty.
\<close>

definition truthy_string :: "string option \<Rightarrow> bool" where
  "truthy_string v = (case v of None \<Rightarrow> False | Some s \<Rightarrow> s \<noteq> [])"

text \<open>\<open>Math.floor(Date.now() / 1000)\<close>, with \<open>Date.now()\<close> an integer of milliseconds.\<close>

definition unix_seconds :: "int \<Rightarrow> int" where
  "unix_seconds nowMs = nowMs div 1000"

subsection \<open>Values of type any\<close>

text \<open>
  The validators take an argument of type \<open>any\<close>: a property of the parsed JSON body
  of a request, which the route checks only to be an object. Such a value is
  \<open>undefined\<close> (a missing property), \<open>null\<close>, a boolean, a number, a string, an array or
  an object, given by the list of its own properties (a key occurs at most once; a
  lookup reads the first). None of them is a function.
\<close>

datatype jsval =
    JUndefined
  | JNull
  | JBool bool
  | JNum number
  | JStr string
  | JArr "jsval list"
  | JObj "(string \<times> jsval) list"

text \<open>\<open>!!v\<close>\<close>

fun truthy :: "jsval \<Rightarrow> bool" where
  "truthy JUndefined = False"
| "truthy JNull = False"
| "truthy (JBool b) = b"
| "truthy (JNum n) = truthy_number n"
| "truthy (JStr s) = (s \<noteq> [])"
| "truthy (JArr xs) = True"
| "truthy (JObj props) = True"

text \<open>\<open>typeof v === 'object'\<close>\<close>

fun typeof_object :: "jsval \<Rightarrow> bool" where
  "typeof_object JNull = True"
| "typeof_object (JArr xs) = True"
| "typeof_object (JObj props) = True"
| "typeof_object v = False"

text \<open>
  \<open>v[name]\<close> for a \<open>v\<close> that is an array or an object, and a \<open>name\<close> that is one of
  the field names of the validators: none of them is a property of an array or an
  inherited property of an object.
\<close>

fun get_prop :: "jsval \<Rightarrow> string \<Rightarrow> jsval" where
  "get_prop (JObj props) name = (case map_of props name of None \<Rightarrow> JUndefined | Some v \<Rightarrow> v)"
| "get_prop v name = JUndefined"

text \<open>
  The conversion of a value to a string, as a regular expression test and a comparison
  with a number do it to an array or an object. An object without an own property
  \<open>toString\<close> gives \<open>[object Object]\<close>; with one (it is not a function, and the inherited
  \<open>valueOf\<close> gives the object back) the conversion throws a TypeError. An array gives its
  elements joined by commas, \<open>null\<close> and \<open>undefined\<close> counting as empty.

  The digits of a number are not computed. The result is the text, or the text of a
  given number, or some text with a comma (of an array of two or more elements); that
  is all the code depends on.
\<close>

datatype str_form = Text string | NumberText number | CommaText

definition type_error :: string where
  "type_error = ''TypeError: Cannot convert object to primitive value''"

fun js_ToString :: "jsval \<Rightarrow> string + str_form"
  and elements_convert :: "jsval list \<Rightarrow> bool" where
  "js_ToString JUndefined = Inr (Text ''undefined'')"
| "js_ToString JNull = Inr (Text ''null'')"
| "js_ToString (JBool b) = Inr (Text (if b then ''true'' else ''false''))"
| "js_ToString (JNum n) = Inr (NumberText n)"
| "js_ToString (JStr s) = Inr (Text s)"
| "js_ToString (JObj props) =
     (case map_of props ''toString'' of
        None \<Rightarrow> Inr (Text ''[object Object]'')
      | Some v \<Rightarrow> Inl type_error)"
| "js_ToString (JArr []) = Inr (Text [])"
| "js_ToString (JArr [x]) =
     (case x of JUndefined \<Rightarrow> Inr (Text []) | JNull \<Rightarrow> Inr (Text []) | _ \<Rightarrow> js_ToString x)"
| "js_ToString (JArr (x # y # zs)) =
     (if elements_convert (x # y # zs) then Inr CommaText else Inl type_error)"
| "elements_convert [] = True"
| "elements_convert (x # xs) =
     ((case js_ToString x of Inl e \<Rightarrow> False | Inr s \<Rightarrow> True) \<and> elements_convert xs)"

definition is_hex_digit :: "char \<Rightarrow> bool" where
  "is_hex_digit c = (c \<in> set ''abcdefABCDEF0123456789'')"

definition is_digit :: "char \<Rightarrow> bool" where
  "is_digit c = (c \<in> set ''0123456789'')"

definition is_white_space :: "char \<Rightarrow> bool" where
  "is_white_space c = ((of_char c :: nat) \<in> {9, 10, 11, 12, 13, 32, 160})"

definition hex_value :: "char \<Rightarrow> nat" where
  "hex_value c =
     (let k = (of_char c :: nat) in
      if 48 \<le> k \<and> k \<le> 57 then k - 48
      else if 97 \<le> k \<and> k \<le> 102 then k - 87
      else k - 55)"

text \<open>The value of a run of digits in a base.\<close>

definition digits_value :: "nat \<Rightarrow> string \<Rightarrow> nat" where
  "digits_value base ds = foldl (\<lambda>acc c. base * acc + hex_value c) 0 ds"

text \<open>
  The conversion of a string to a number (\<open>StringToNumber\<close>): white space is trimmed
  at both ends; the empty string is 0; \<open>0x\<close>, \<open>0o\<close> and \<open>0b\<close> start an unsigned
  integer in base 16, 8 and 2; otherwise the string is an optional sign followed by
  \<open>Infinity\<close> or by a decimal literal (digits, an optional fraction, an optional
  exponent); anything else is NaN. JavaScript takes the double nearest to the number
  the literal denotes; that rounding is the argument \<open>nearest\<close>.
\<close>

definition trim :: "string \<Rightarrow> string" where
  "trim s = rev (dropWhile is_white_space (rev (dropWhile is_white_space s)))"

definition radix_literal :: "(rat \<Rightarrow> number) \<Rightarrow> nat \<Rightarrow> string \<Rightarrow> string \<Rightarrow> number" where
  "radix_literal nearest base allowed ds =
     (if ds \<noteq> [] \<and> list_all (\<lambda>c. c \<in> set allowed) ds
      then nearest (of_nat (digits_value base ds)) else NaN)"

text \<open>The exponent part that ends a decimal literal, or nothing.\<close>

definition exponent_part :: "string \<Rightarrow> int option" where
  "exponent_part r =
     (if r = [] then Some 0
      else if take 1 r = ''e'' \<or> take 1 r = ''E'' then
        (let r1 = drop 1 r;
             ds = (if take 1 r1 = ''-'' \<or> take 1 r1 = ''+'' then drop 1 r1 else r1)
         in if ds \<noteq> [] \<and> list_all is_digit ds then
              Some (if take 1 r1 = ''-'' then - int (digits_value 10 ds)
                    else int (digits_value 10 ds))
            else None)
      else None)"

definition power_of_ten :: "int \<Rightarrow> rat" where
  "power_of_ten e = (if 0 \<le> e then 10 ^ nat e else 1 / 10 ^ nat (- e))"

definition decimal_literal :: "string \<Rightarrow> rat option" where
  "decimal_literal u =
     (let ip = takeWhile is_digit u;
          r1 = dropWhile is_digit u;
          dot = (take 1 r1 = ''.'');
          fp = (if dot then takeWhile is_digit (drop 1 r1) else []);
          r2 = (if dot then dropWhile is_digit (drop 1 r1) else r1)
      in if ip = [] \<and> fp = [] then None
         else (case exponent_part r2 of
                 None \<Rightarrow> None
               | Some e \<Rightarrow>
                   Some ((of_nat (digits_value 10 ip)
                          + of_nat (digits_value 10 fp) / 10 ^ length fp)
                         * power_of_ten e)))"

definition string_to_number :: "(rat \<Rightarrow> number) \<Rightarrow> string \<Rightarrow> number" where
  "string_to_number nearest s =
     (let t = trim s in
      if t = [] then Num 0
      else if take 2 t = ''0x'' \<or> take 2 t = ''0X'' then
        radix_literal nearest 16 ''abcdefABCDEF0123456789'' (drop 2 t)
      else if take 2 t = ''0o'' \<or> take 2 t = ''0O'' then
        radix_literal nearest 8 ''01234567'' (drop 2 t)
      else if take 2 t = ''0b'' \<or> take 2 t = ''0B'' then
        radix_literal nearest 2 ''01'' (drop 2 t)
      else
        (let neg = (take 1 t = ''-'');
             u = (if take 1 t = ''-'' \<or> take 1 t = ''+'' then drop 1 t else t)
         in if u = ''Infinity'' then (if neg then NegInfinity else PosInfinity)
            else (case decimal_literal u of
                    None \<Rightarrow> NaN
                  | Some q \<Rightarrow> nearest (if neg then - q else q))))"

text \<open>
  The number a value is compared as (\<open>ToNumber\<close>, after \<open>ToPrimitive\<close> for an array
  or an object, which ends in the conversion to a string above).
\<close>

definition js_ToNumber :: "(rat \<Rightarrow> number) \<Rightarrow> jsval \<Rightarrow> string + number" where
  "js_ToNumber nearest v =
     (case v of
        JUndefined \<Rightarrow> Inr NaN
      | JNull \<Rightarrow> Inr (Num 0)
      | JBool b \<Rightarrow> Inr (Num (if b then 1 else 0))
      | JNum n \<Rightarrow> Inr n
      | JStr s \<Rightarrow> Inr (string_to_number nearest s)
      | _ \<Rightarrow>
          (case js_ToString v of
             Inl e \<Rightarrow> Inl e
           | Inr (Text s) \<Rightarrow> Inr (string_to_number nearest s)
           | Inr (NumberText n) \<Rightarrow> Inr n
           | Inr CommaText \<Rightarrow> Inr NaN))"

section \<open>utils/validation.ts\<close>

text \<open>
  \<open>isAddress\<close> comes from the viem library, which is not part of the repository; it is
  an argument of every function that calls it. It is handed a value of type \<open>any\<close>,
  and it returns a boolean (\<open>Inr\<close>) or throws (\<open>Inl\<close> the message).
\<close>

definition validateWalletAddress :: "(jsval \<Rightarrow> string + bool) \<Rightarrow> jsval \<Rightarrow> string + bool" where
  "validateWalletAddress isAddress address = isAddress address"

text \<open>The regular expression \<open>/^0x[a-fA-F0-9]{n}$/\<close> tested on a string.\<close>

definition test_0x_hex :: "nat \<Rightarrow> string \<Rightarrow> bool" where
  "test_0x_hex n s =
     (take 2 s = ''0x'' \<and> length (drop 2 s) = n \<and> list_all is_hex_digit (drop 2 s))"

text \<open>
  \<open>/^0x[a-fA-F0-9]{n}$/.test(v)\<close> for a value of type \<open>any\<close>: the value is converted to
  a string first. The text of a number has no \<open>x\<close> and a text with a comma has a
  character that is not hexadecimal, so neither matches.
\<close>

definition regex_test_0x_hex :: "nat \<Rightarrow> jsval \<Rightarrow> string + bool" where
  "regex_test_0x_hex n v =
     (case js_ToString v of
        Inl e \<Rightarrow> Inl e
      | Inr (Text s) \<Rightarrow> Inr (test_0x_hex n s)
      | Inr (NumberText x) \<Rightarrow> Inr False
      | Inr CommaText \<Rightarrow> Inr False)"

text \<open>\<open>v <= now\<close> for a value of type \<open>any\<close> and an integer \<open>now\<close>.\<close>

definition js_le_int :: "(rat \<Rightarrow> number) \<Rightarrow> jsval \<Rightarrow> int \<Rightarrow> string + bool" where
  "js_le_int nearest v now =
     (case js_ToNumber nearest v of
        Inl e \<Rightarrow> Inl e
      | Inr n \<Rightarrow> Inr (number_le n (Num (of_int now))))"

definition permit_requiredFields :: "string list" where
  "permit_requiredFields = [''owner'', ''spender'', ''value'', ''deadline'', ''nonce'', ''sig'']"

text \<open>
  \<open>validatePermit\<close>. Besides \<open>isAddress\<close> its surroundings are \<open>Date.now()\<close> and the
  rounding of a numeric string to a double. The result is the boolean returned
  (\<open>Inr\<close>) or the message of the error thrown (\<open>Inl\<close>).
\<close>

definition validatePermit ::
  "(jsval \<Rightarrow> string + bool) \<Rightarrow> (rat \<Rightarrow> number) \<Rightarrow> int \<Rightarrow> jsval \<Rightarrow> string + bool" where
  "validatePermit isAddress nearest nowMs permit =
     (if \<not> truthy permit \<or> \<not> typeof_object permit then Inr False
      else if \<not> list_all (\<lambda>field. truthy (get_prop permit field)) permit_requiredFields
      then Inr False
      else
        (case validateWalletAddress isAddress (get_prop permit ''owner'') of
           Inl e \<Rightarrow> Inl e
         | Inr owner_ok \<Rightarrow>
             if \<not> owner_ok then Inr False
             else
               (case validateWalletAddress isAddress (get_prop permit ''spender'') of
                  Inl e \<Rightarrow> Inl e
                | Inr spender_ok \<Rightarrow>
                    if \<not> spender_ok then Inr False
                    else
                      (case regex_test_0x_hex 130 (get_prop permit ''sig'') of
                         Inl e \<Rightarrow> Inl e
                       | Inr sig_ok \<Rightarrow>
                           if \<not> sig_ok then Inr False
                           else
                             (case regex_test_0x_hex 64 (get_prop permit ''nonce'') of
                                Inl e \<Rightarrow> Inl e
                              | Inr nonce_ok \<Rightarrow>
                                  if \<not> nonce_ok then Inr False
                                  else
                                    (case js_le_int nearest (get_prop permit ''deadline'')
                                            (unix_seconds nowMs) of
                                       Inl e \<Rightarrow> Inl e
                                     | Inr expired \<Rightarrow>
                                         if expired then Inr False else Inr True))))))"

definition requirements_requiredFields :: "string list" where
  "requirements_requiredFields =
     [''network'', ''token'', ''recipient'', ''amount'', ''nonce'', ''deadline'']"

definition validateRequirements :: "(jsval \<Rightarrow> string + bool) \<Rightarrow> jsval \<Rightarrow> string + bool" where
  "validateRequirements isAddress requirements =
     (if \<not> truthy requirements \<or> \<not> typeof_object requirements then Inr False
      else if \<not> list_all (\<lambda>field. truthy (get_prop requirements field))
                  requirements_requiredFields
      then Inr False
      else if get_prop requirements ''network'' \<noteq> JStr ''arbitrum'' then Inr False
      else
        (case validateWalletAddress isAddress (get_prop requirements ''recipient'') of
           Inl e \<Rightarrow> Inl e
         | Inr recipient_ok \<Rightarrow>
             if \<not> recipient_ok then Inr False
             else
               (case validateWalletAddress isAddress (get_prop requirements ''token'') of
                  Inl e \<Rightarrow> Inl e
                | Inr token_ok \<Rightarrow> if \<not> token_ok then Inr False else Inr True)))"

section \<open>config.ts\<close>

record config =
  NODE_ENV :: string
  DEV_BYPASS_SECRET :: string
  FACILITATOR_API_URL :: string
  FACILITATOR_API_KEY :: string
  MERCHANT_ADDRESS :: string

definition PAYMENT_AMOUNT_USDC :: string where
  "PAYMENT_AMOUNT_USDC = ''1000000''"

definition PAYMENT_USDC_ADDRESS :: string where
  "PAYMENT_USDC_ADDRESS = ''0xaf88d065e77c8cC2239327C5EDb3A432268e5831''"

section \<open>services/payment.ts: data\<close>

record PaymentRequirements =
  network :: string
  token :: string
  recipient :: string
  amount :: string
  nonce :: string
  deadline :: number

record Permit =
  permit_owner :: string
  permit_spender :: string
  permit_value :: string
  permit_deadline :: number
  permit_nonce :: string
  permit_sig :: string

text \<open>The body of the quote request, \<open>POST {base}/requirements\<close>.\<close>

record quote_request =
  q_amount :: string
  q_memo :: string
  q_network :: string
  q_token :: string
  q_extra_merchantAddress :: string

text \<open>
  The quote the facilitator answers with:
  \<open>{accepts: [{network, asset, payTo, maxAmountRequired, extra?: {nonce?, deadline?}}]}\<close>.
\<close>

record accepts_extra =
  extra_nonce :: "string option"
  extra_deadline :: "number option"

record accepts_item =
  acc_network :: string
  acc_asset :: string
  acc_payTo :: string
  acc_maxAmountRequired :: string
  acc_extra :: "accepts_extra option"

record quote_data =
  accepts :: "accepts_item list option"

text \<open>The body of the settlement request, \<open>POST {base}/settle\<close>.\<close>

record payment_payload =
  pp_from :: string
  pp_to :: string
  pp_value :: string
  pp_validAfter :: nat
  pp_validBefore :: number
  pp_nonce :: string
  pp_v :: number
  pp_r :: string
  pp_s :: string

record settle_request =
  sr_network :: string
  sr_token :: string
  sr_recipient :: string
  sr_amount :: string
  sr_nonce :: string
  sr_deadline :: number
  sr_extra_merchantAddress :: string
  sr_permit :: Permit
  sr_pp_scheme :: string
  sr_pp_network :: string
  sr_pp_payload :: payment_payload
  sr_pr_scheme :: string
  sr_pr_network :: string
  sr_pr_token :: string
  sr_pr_amount :: string
  sr_pr_recipient :: string
  sr_pr_description :: string
  sr_pr_maxTimeoutSeconds :: nat

text \<open>
  The JSON body of a successful settlement: the three properties the code reads.
  \<open>d_meta = None\<close> is a body without \<open>meta\<close>.
\<close>

record settle_data =
  d_txHash :: "string option"
  d_transactionHash :: "string option"
  d_meta :: "string option option"

record settle_result =
  res_success :: bool
  res_txHash :: string
  res_facilitatorResponse :: "settle_data option"

text \<open>
  What \<open>await fetch(...)\<close> gives: the promise rejects with an error message, or resolves
  to a response with a status, the text \<open>response.text()\<close> reads, and what
  \<open>response.json()\<close> gives, which is \<open>Inl\<close> the message of the error it throws when the
  body is not JSON (or is \<open>null\<close>, so that reading a property of it throws).
\<close>

record 'a http_response =
  status :: nat
  body_text :: string
  body_json :: "string + 'a"

datatype 'a fetch_outcome = Rejected string | Response "'a http_response"

definition response_ok :: "'a http_response \<Rightarrow> bool" where
  "response_ok r = (200 \<le> status r \<and> status r \<le> 299)"

text \<open>What a call does besides returning: console output, HTTP requests, timers.\<close>

datatype effect =
    Log string
  | FetchRequirements string quote_request
  | FetchSettle string string settle_request
  | Sleep nat

section \<open>services/payment.ts: helpers of the JavaScript library\<close>

text \<open>Decimal digits of a natural number: \<open>toString()\<close> of a non-negative integer.\<close>

fun toString_nat :: "nat \<Rightarrow> string" where
  "toString_nat n =
     (if n < 10 then [''0123456789'' ! n]
      else toString_nat (n div 10) @ [''0123456789'' ! (n mod 10)])"

declare toString_nat.simps [simp del]

definition toString_int :: "int \<Rightarrow> string" where
  "toString_int i = (if i < 0 then CHR ''-'' # toString_nat (nat (- i)) else toString_nat (nat i))"

text \<open>\<open>b.toString(16).padStart(2, '0')\<close> for a byte.\<close>

definition byte_hex :: "8 word \<Rightarrow> string" where
  "byte_hex b = [''0123456789abcdef'' ! (unat b div 16), ''0123456789abcdef'' ! (unat b mod 16)]"

text \<open>\<open>s.includes(sub)\<close>.\<close>

fun str_includes :: "string \<Rightarrow> string \<Rightarrow> bool" where
  "str_includes [] sub = (sub = [])"
| "str_includes (c # cs) sub = (take (length sub) (c # cs) = sub \<or> str_includes cs sub)"

text \<open>\<open>s.slice(a, b)\<close> for \<open>0 \<le> a \<le> b\<close>.\<close>

definition slice :: "nat \<Rightarrow> nat \<Rightarrow> string \<Rightarrow> string" where
  "slice a b s = take (b - a) (drop a s)"

text \<open>
  \<open>parseInt(s, 16)\<close>: leading white space is skipped, then an optional sign and an
  optional \<open>0x\<close>, then the longest run of hexadecimal digits is read; no digit gives NaN.
\<close>

definition parseInt16 :: "string \<Rightarrow> number" where
  "parseInt16 s =
     (let s1 = dropWhile is_white_space s;
          neg = (take 1 s1 = ''-'');
          s2 = (if take 1 s1 = ''-'' \<or> take 1 s1 = ''+'' then drop 1 s1 else s1);
          s3 = (if take 2 s2 = ''0x'' \<or> take 2 s2 = ''0X'' then drop 2 s2 else s2);
          ds = takeWhile is_hex_digit s3;
          n = foldl (\<lambda>acc c. 16 * acc + hex_value c) 0 ds
      in if ds = [] then NaN
         else if neg then Num (- of_nat n) else Num (of_nat n))"

section \<open>services/payment.ts: startPayment\<close>

text \<open>The argument is the 32 bytes \<open>crypto.getRandomValues\<close> fills the array with.\<close>

definition generateNonce :: "8 word list \<Rightarrow> string" where
  "generateNonce bytes = ''0x'' @ concat (map byte_hex bytes)"

definition createDevBypassResponse :: "int \<Rightarrow> 8 word list \<Rightarrow> PaymentRequirements" where
  "createDevBypassResponse nowMs bytes =
     \<lparr> network = ''arbitrum'',
       token = PAYMENT_USDC_ADDRESS,
       recipient = ''0x0000000000000000000000000000000000000000'',
       amount = PAYMENT_AMOUNT_USDC,
       nonce = generateNonce bytes,
       deadline = Num (of_int (unix_seconds nowMs + 3600)) \<rparr>"

text \<open>The condition of the development bypass, the same in both functions.\<close>

definition devBypassActive :: "config \<Rightarrow> string option \<Rightarrow> bool" where
  "devBypassActive cfg devBypass =
     (NODE_ENV cfg \<noteq> ''production'' \<and> truthy_string devBypass
      \<and> devBypass = Some (DEV_BYPASS_SECRET cfg))"

text \<open>The amounts are BigInt literals; all are positive, where \<open>div\<close> is BigInt division.\<close>

definition merchantAmount :: int where
  "merchantAmount = 900000"

definition serviceFee :: int where
  "serviceFee = (merchantAmount * 50) div 10000"

definition gasFee :: int where
  "gasFee = 100000"

definition totalAmount :: int where
  "totalAmount = merchantAmount + serviceFee + gasFee"

definition facilitatorRequest_start :: "config \<Rightarrow> quote_request" where
  "facilitatorRequest_start cfg =
     \<lparr> q_amount = toString_int totalAmount,
       q_memo = ''EdgeFinder scan'',
       q_network = ''arbitrum'',
       q_token = ''USDC'',
       q_extra_merchantAddress = MERCHANT_ADDRESS cfg \<rparr>"

text \<open>
  \<open>startPayment\<close>. The surroundings are arguments: the configuration, \<open>Date.now()\<close>,
  the random bytes, and the facilitator as a function from the request to the outcome
  of \<open>fetch\<close>. The result is the value returned (\<open>Inr\<close>) or the message of the error
  thrown (\<open>Inl\<close>), with the effects in order.
\<close>

definition startPayment ::
  "config \<Rightarrow> int \<Rightarrow> 8 word list \<Rightarrow> (string \<Rightarrow> quote_request \<Rightarrow> quote_data fetch_outcome)
     \<Rightarrow> string \<Rightarrow> string option \<Rightarrow> (string + PaymentRequirements) \<times> effect list" where
  "startPayment cfg nowMs bytes facilitator walletAddress devBypass =
     (if devBypassActive cfg devBypass then
        (Inr (createDevBypassResponse nowMs bytes), [Log ''Using dev bypass mode''])
      else if FACILITATOR_API_URL cfg = [] \<or> MERCHANT_ADDRESS cfg = [] then
        (Inl ''Facilitator configuration not available'', [])
      else
        let url = FACILITATOR_API_URL cfg @ ''/requirements'';
            request = facilitatorRequest_start cfg;
            effects = [FetchRequirements url request]
        in case facilitator url request of
             Rejected msg \<Rightarrow> (Inl msg, effects)
           | Response response \<Rightarrow>
               if \<not> response_ok response \<and> status response \<noteq> 402 then
                 (Inl (''Facilitator error: '' @ body_text response), effects)
               else
                 (case body_json response of
                    Inl msg \<Rightarrow> (Inl msg, effects)
                  | Inr facilitatorData \<Rightarrow>
                      (case accepts facilitatorData of
                         None \<Rightarrow> (Inl ''Invalid response from payment facilitator'', effects)
                       | Some [] \<Rightarrow> (Inl ''Invalid response from payment facilitator'', effects)
                       | Some (acceptsItem # _) \<Rightarrow>
                           if acc_network acceptsItem \<noteq> ''arbitrum'' then
                             (Inl ''Only Arbitrum network is supported'', effects)
                           else
                             (Inr \<lparr> network = acc_network acceptsItem,
                                    token = acc_asset acceptsItem,
                                    recipient = acc_payTo acceptsItem,
                                    amount = acc_maxAmountRequired acceptsItem,
                                    nonce =
                                      (case acc_extra acceptsItem of
                                         None \<Rightarrow> []
                                       | Some extra \<Rightarrow>
                                           (case extra_nonce extra of
                                              None \<Rightarrow> [] | Some n \<Rightarrow> n)),
                                    deadline =
                                      (case acc_extra acceptsItem of
                                         None \<Rightarrow> Num (of_int (nowMs + 3600000))
                                       | Some extra \<Rightarrow>
                                           (case extra_deadline extra of
                                              None \<Rightarrow> Num (of_int (nowMs + 3600000))
                                            | Some d \<Rightarrow>
                                                if truthy_number d then d
                                                else Num (of_int (nowMs + 3600000)))) \<rparr>,
                              effects))))"

section \<open>services/payment.ts: settlePayment\<close>

definition maxRetries :: nat where
  "maxRetries = 4"

definition baseRetryDelay :: nat where
  "baseRetryDelay = 1000"

text \<open>\<open>baseRetryDelay * Math.pow(2, attempt - 1)\<close>, for the attempts \<open>1, 2, ...\<close> of the loop.\<close>

definition retryDelay :: "nat \<Rightarrow> nat" where
  "retryDelay attempt = baseRetryDelay * 2 ^ (attempt - 1)"

definition facilitatorRequest_settle :: "config \<Rightarrow> PaymentRequirements \<Rightarrow> Permit \<Rightarrow> settle_request" where
  "facilitatorRequest_settle cfg requirements permit =
     (let signature = permit_sig permit;
          r = slice 0 66 signature;
          s = ''0x'' @ slice 66 130 signature;
          v = parseInt16 (slice 130 132 signature)
      in \<lparr> sr_network = network requirements,
           sr_token = token requirements,
           sr_recipient = recipient requirements,
           sr_amount = amount requirements,
           sr_nonce = permit_nonce permit,
           sr_deadline = deadline requirements,
           sr_extra_merchantAddress = MERCHANT_ADDRESS cfg,
           sr_permit =
             \<lparr> permit_owner = permit_owner permit,
               permit_spender = permit_spender permit,
               permit_value = permit_value permit,
               permit_deadline = permit_deadline permit,
               permit_nonce = permit_nonce permit,
               permit_sig = permit_sig permit \<rparr>,
           sr_pp_scheme = ''exact'',
           sr_pp_network = network requirements,
           sr_pp_payload =
             \<lparr> pp_from = permit_owner permit,
               pp_to = permit_spender permit,
               pp_value = permit_value permit,
               pp_validAfter = 0,
               pp_validBefore = permit_deadline permit,
               pp_nonce = permit_nonce permit,
               pp_v = v,
               pp_r = r,
               pp_s = s \<rparr>,
           sr_pr_scheme = ''exact'',
           sr_pr_network = network requirements,
           sr_pr_token = token requirements,
           sr_pr_amount = amount requirements,
           sr_pr_recipient = recipient requirements,
           sr_pr_description = ''EdgeFinder scan'',
           sr_pr_maxTimeoutSeconds = 3600 \<rparr>)"

text \<open>
  \<open>a || b\<close> for a string \<open>a\<close> that may be undefined, and
  \<open>data.txHash || data.transactionHash || data.meta?.incomingTxHash || 'unknown'\<close>.
\<close>

fun truthy_or :: "string option \<Rightarrow> string \<Rightarrow> string" where
  "truthy_or None b = b"
| "truthy_or (Some a) b = (if a = [] then b else a)"

definition extract_txHash :: "settle_data \<Rightarrow> string" where
  "extract_txHash data =
     truthy_or (d_txHash data)
       (truthy_or (d_transactionHash data)
          (truthy_or (case d_meta data of None \<Rightarrow> None | Some incoming \<Rightarrow> incoming)
             ''unknown''))"

text \<open>How the \<open>try\<close> block of one attempt ends.\<close>

datatype try_end = Returned settle_result | Thrown string | Completed

text \<open>
  The \<open>try\<close> block of the loop, for one attempt. The facilitator is a function from the
  number of the attempt, the URL, the API key and the body to the outcome of \<open>fetch\<close>.
\<close>

definition settle_try ::
  "config \<Rightarrow> (nat \<Rightarrow> string \<Rightarrow> string \<Rightarrow> settle_request \<Rightarrow> settle_data fetch_outcome)
     \<Rightarrow> settle_request \<Rightarrow> nat \<Rightarrow> try_end \<times> effect list" where
  "settle_try cfg facilitator request attempt =
     (let url = FACILITATOR_API_URL cfg @ ''/settle'';
          key = FACILITATOR_API_KEY cfg;
          call = FetchSettle url key request
      in case facilitator attempt url key request of
           Rejected msg \<Rightarrow> (Thrown msg, [call])
         | Response response \<Rightarrow>
             if response_ok response then
               (case body_json response of
                  Inl msg \<Rightarrow> (Thrown msg, [call])
                | Inr data \<Rightarrow>
                    (Returned \<lparr> res_success = True, res_txHash = extract_txHash data,
                                res_facilitatorResponse = Some data \<rparr>, [call]))
             else
               let errorText = body_text response;
                   statusCode = status response;
                   isNonceError =
                     (str_includes errorText ''nonce uniqueness'' \<or> str_includes errorText ''checking nonce'');
                   isDatabaseError =
                     (str_includes errorText ''database'' \<or> str_includes errorText ''Internal error'');
                   isServerError = (statusCode \<ge> 500);
                   isRetryable = (isServerError \<or> isNonceError \<or> isDatabaseError)
               in if \<not> isRetryable \<or> attempt = maxRetries then
                    (Thrown (''Payment settlement failed: '' @ errorText), [call])
                  else
                    (Completed,
                     [call,
                      Log (''Retryable error, waiting '' @ toString_nat (retryDelay attempt)
                           @ ''ms before retry...''),
                      Sleep (retryDelay attempt)]))"

text \<open>
  The loop \<open>for (attempt = 1; attempt <= maxRetries; attempt++)\<close> with its \<open>catch\<close>
  block, and the \<open>throw\<close> after it. \<open>lastError\<close> is the message of the error caught last.
\<close>

function settle_loop ::
  "config \<Rightarrow> (nat \<Rightarrow> string \<Rightarrow> string \<Rightarrow> settle_request \<Rightarrow> settle_data fetch_outcome)
     \<Rightarrow> settle_request \<Rightarrow> nat \<Rightarrow> string option \<Rightarrow> (string + settle_result) \<times> effect list" where
  "settle_loop cfg facilitator request attempt lastError =
     (if attempt \<le> maxRetries then
        (case settle_try cfg facilitator request attempt of
           (Returned result, effects) \<Rightarrow> (Inr result, effects)
         | (Completed, effects) \<Rightarrow>
             (let rest = settle_loop cfg facilitator request (attempt + 1) lastError
              in (fst rest, effects @ snd rest))
         | (Thrown msg, effects) \<Rightarrow>
             if attempt = maxRetries then
               (Inl (''Payment settlement failed after '' @ toString_nat maxRetries
                     @ '' attempts: '' @ msg), effects)
             else
               (let rest = settle_loop cfg facilitator request (attempt + 1) (Some msg)
                in (fst rest, effects @ [Sleep (retryDelay attempt)] @ snd rest)))
      else
        (Inl (case lastError of Some msg \<Rightarrow> msg | None \<Rightarrow> ''Payment settlement failed''), []))"
  by pat_completeness auto
termination
  by (relation "measure (\<lambda>(cfg, facilitator, request, attempt, lastError). maxRetries + 1 - attempt)")
    auto

declare settle_loop.simps [simp del]

definition settlePayment ::
  "config \<Rightarrow> (nat \<Rightarrow> string \<Rightarrow> string \<Rightarrow> settle_request \<Rightarrow> settle_data fetch_outcome)
     \<Rightarrow> PaymentRequirements \<Rightarrow> Permit \<Rightarrow> string option
     \<Rightarrow> (string + settle_result) \<times> effect list" where
  "settlePayment cfg facilitator requirements permit devBypass =
     (if devBypassActive cfg devBypass then
        (Inr \<lparr> res_success = True, res_txHash = ''dev-bypass'',
                res_facilitatorResponse = None \<rparr>,
         [Log ''Using dev bypass mode for settlement''])
      else if FACILITATOR_API_URL cfg = [] \<or> FACILITATOR_API_KEY cfg = [] then
        (Inl ''Facilitator configuration not available'', [])
      else
        settle_loop cfg facilitator (facilitatorRequest_settle cfg requirements permit) 1 None)"

section \<open>services/supabase.ts: the store\<close>

text \<open>
  The store is the Supabase client, a collaborator outside the repository. It is modelled
  by its two tables, the queries the code sends, and what each query answers. A timestamp
  column, an ISO 8601 string compared by the store as a time, is the integer of
  milliseconds it denotes. The items of a dataset are not inspected.
\<close>

type_synonym timestamp = int

typedecl MatchedEvent

record SharedDataset =
  ds_id :: string
  ds_items :: "MatchedEvent list"
  ds_created_at :: timestamp
  ds_expires_at :: timestamp

record Entitlement =
  ent_id :: string
  ent_wallet_address :: string
  ent_shared_dataset_id :: string
  ent_tx_hash :: string
  ent_facilitator_response :: "string option"
  ent_valid_until :: timestamp
  ent_created_at :: timestamp

text \<open>The row handed to \<open>insert\<close>; the store generates the id and the creation time.\<close>

record entitlement_insert =
  ins_wallet_address :: string
  ins_shared_dataset_id :: string
  ins_tx_hash :: string
  ins_facilitator_response :: "string option"
  ins_valid_until :: timestamp

datatype db_query =
    SelectActiveDatasets timestamp
  | SelectLatestDataset
  | SelectDatasetExpiry string
  | InsertEntitlement entitlement_insert

text \<open>
  The state of the store: the tables, the id and the creation time it gives to the next
  inserted row, and the queries received so far.
\<close>

record db =
  shared_datasets :: "SharedDataset list"
  entitlements :: "Entitlement list"
  next_id :: string
  db_clock :: timestamp
  query_log :: "db_query list"

text \<open>
  A query answers \<open>{data, error}\<close>: \<open>Inl\<close> the message of the error, or \<open>Inr\<close> the rows.
  Whether the store fails on a query is the argument \<open>fault\<close>.
\<close>

definition order_created_desc :: "SharedDataset list \<Rightarrow> SharedDataset list" where
  "order_created_desc rows = sort_key (\<lambda>d. - ds_created_at d) rows"

text \<open>
  \<open>from('shared_datasets').select('*').gt('expires_at', now).order('created_at',
  {ascending: false}).limit(1)\<close>
\<close>

definition select_active_datasets ::
  "(db_query \<Rightarrow> string option) \<Rightarrow> db \<Rightarrow> timestamp \<Rightarrow> (string + SharedDataset list) \<times> db" where
  "select_active_datasets fault d now =
     (let q = SelectActiveDatasets now; d' = d\<lparr>query_log := query_log d @ [q]\<rparr>
      in case fault q of
           Some msg \<Rightarrow> (Inl msg, d')
         | None \<Rightarrow>
             (Inr (take 1 (order_created_desc
                     (filter (\<lambda>row. ds_expires_at row > now) (shared_datasets d)))), d'))"

text \<open>\<open>from('shared_datasets').select('*').order('created_at', {ascending: false}).limit(1)\<close>\<close>

definition select_latest_dataset ::
  "(db_query \<Rightarrow> string option) \<Rightarrow> db \<Rightarrow> (string + SharedDataset list) \<times> db" where
  "select_latest_dataset fault d =
     (let q = SelectLatestDataset; d' = d\<lparr>query_log := query_log d @ [q]\<rparr>
      in case fault q of
           Some msg \<Rightarrow> (Inl msg, d')
         | None \<Rightarrow> (Inr (take 1 (order_created_desc (shared_datasets d))), d'))"

text \<open>\<open>from('shared_datasets').select('expires_at').eq('id', id).limit(1)\<close>\<close>

definition select_dataset_expiry ::
  "(db_query \<Rightarrow> string option) \<Rightarrow> db \<Rightarrow> string \<Rightarrow> (string + timestamp list) \<times> db" where
  "select_dataset_expiry fault d sharedDatasetId =
     (let q = SelectDatasetExpiry sharedDatasetId; d' = d\<lparr>query_log := query_log d @ [q]\<rparr>
      in case fault q of
           Some msg \<Rightarrow> (Inl msg, d')
         | None \<Rightarrow>
             (Inr (take 1 (map ds_expires_at
                     (filter (\<lambda>row. ds_id row = sharedDatasetId) (shared_datasets d)))), d'))"

text \<open>\<open>from('entitlements').insert(row).select().single()\<close>\<close>

definition insert_entitlement ::
  "(db_query \<Rightarrow> string option) \<Rightarrow> db \<Rightarrow> entitlement_insert \<Rightarrow> (string + Entitlement) \<times> db" where
  "insert_entitlement fault d row =
     (let q = InsertEntitlement row; d' = d\<lparr>query_log := query_log d @ [q]\<rparr>
      in case fault q of
           Some msg \<Rightarrow> (Inl msg, d')
         | None \<Rightarrow>
             (let ent = \<lparr> ent_id = next_id d,
                          ent_wallet_address = ins_wallet_address row,
                          ent_shared_dataset_id = ins_shared_dataset_id row,
                          ent_tx_hash = ins_tx_hash row,
                          ent_facilitator_response = ins_facilitator_response row,
                          ent_valid_until = ins_valid_until row,
                          ent_created_at = db_clock d \<rparr>
              in (Inr ent, d'\<lparr>entitlements := entitlements d @ [ent]\<rparr>)))"

section \<open>services/supabase.ts: getLatestSharedDataset and grantDatasetAccess\<close>

text \<open>\<open>now\<close> is the time \<open>new Date()\<close> reads.\<close>

definition getLatestSharedDataset ::
  "(db_query \<Rightarrow> string option) \<Rightarrow> db \<Rightarrow> timestamp \<Rightarrow> (string + SharedDataset) \<times> db" where
  "getLatestSharedDataset fault d now =
     (case select_active_datasets fault d now of
        (Inl msg, d1) \<Rightarrow> (Inl (''Failed to fetch shared dataset: '' @ msg), d1)
      | (Inr (activeRow # _), d1) \<Rightarrow> (Inr activeRow, d1)
      | (Inr [], d1) \<Rightarrow>
          (case select_latest_dataset fault d1 of
             (Inl msg, d2) \<Rightarrow> (Inl (''Failed to fetch shared dataset: '' @ msg), d2)
           | (Inr [], d2) \<Rightarrow>
               (Inl ''No shared dataset available. Pipeline may not have run yet.'', d2)
           | (Inr (expiredRow # _), d2) \<Rightarrow> (Inr expiredRow, d2)))"

definition grantDatasetAccess ::
  "(db_query \<Rightarrow> string option) \<Rightarrow> db \<Rightarrow> string \<Rightarrow> string \<Rightarrow> string \<Rightarrow> string option
     \<Rightarrow> (string + Entitlement) \<times> db" where
  "grantDatasetAccess fault d walletAddress sharedDatasetId txHash facilitatorResponse =
     (case select_dataset_expiry fault d sharedDatasetId of
        (Inl msg, d1) \<Rightarrow> (Inl ''Failed to get shared dataset expiration'', d1)
      | (Inr [], d1) \<Rightarrow> (Inl ''Failed to get shared dataset expiration'', d1)
      | (Inr (expires_at # _), d1) \<Rightarrow>
          (case insert_entitlement fault d1
                  \<lparr> ins_wallet_address = walletAddress,
                    ins_shared_dataset_id = sharedDatasetId,
                    ins_tx_hash = txHash,
                    ins_facilitator_response = facilitatorResponse,
                    ins_valid_until = expires_at \<rparr> of
             (Inl msg, d2) \<Rightarrow> (Inl (''Failed to create entitlement: '' @ msg), d2)
           | (Inr entitlement, d2) \<Rightarrow> (Inr entitlement, d2)))"

section \<open>Observing a run\<close>

text \<open>
  The requests and the waits of a run, in order, without the console output: what the
  retry policy is stated about.
\<close>

datatype event = Call | Wait nat

fun timeline :: "effect list \<Rightarrow> event list" where
  "timeline [] = []"
| "timeline (Log msg # es) = timeline es"
| "timeline (FetchRequirements url body # es) = Call # timeline es"
| "timeline (FetchSettle url key body # es) = Call # timeline es"
| "timeline (Sleep ms # es) = Wait ms # timeline es"

definition calls :: "effect list \<Rightarrow> nat" where
  "calls es = length (filter (\<lambda>e. e = Call) (timeline es))"

text \<open>The bodies of the settlement requests of a run.\<close>

fun settle_bodies :: "effect list \<Rightarrow> settle_request list" where
  "settle_bodies [] = []"
| "settle_bodies (FetchSettle url key body # es) = body # settle_bodies es"
| "settle_bodies (e # es) = settle_bodies es"



text \<open>
  A non-success response that is not retryable, as the specification words it: status
  below 500 and a text with neither a nonce-conflict nor a database or internal-error
  substring.
\<close>

definition terminal_failure :: "'a http_response \<Rightarrow> bool" where
  "terminal_failure r =
     (\<not> response_ok r \<and> status r < 500
      \<and> \<not> str_includes (body_text r) ''nonce uniqueness''
      \<and> \<not> str_includes (body_text r) ''checking nonce''
      \<and> \<not> str_includes (body_text r) ''database''
      \<and> \<not> str_includes (body_text r) ''Internal error'')"

text \<open>
  A field that, if present, has the type the interfaces \<open>Permit\<close> and
  \<open>PaymentRequirements\<close> give it.
\<close>

fun absent_or_string :: "jsval \<Rightarrow> bool" where
  "absent_or_string JUndefined = True"
| "absent_or_string (JStr s) = True"
| "absent_or_string v = False"

fun absent_or_number :: "jsval \<Rightarrow> bool" where
  "absent_or_number JUndefined = True"
| "absent_or_number (JNum n) = True"
| "absent_or_number v = False"

section \<open>Example inputs\<close>

definition example_config :: config where
  "example_config =
     \<lparr> NODE_ENV = ''production'',
       DEV_BYPASS_SECRET = ''let-me-in'',
       FACILITATOR_API_URL = ''https://facilitator.example'',
       FACILITATOR_API_KEY = ''key'',
       MERCHANT_ADDRESS = ''0x1111111111111111111111111111111111111111'' \<rparr>"

definition example_requirements :: PaymentRequirements where
  "example_requirements =
     \<lparr> network = ''arbitrum'',
       token = PAYMENT_USDC_ADDRESS,
       recipient = ''0x2222222222222222222222222222222222222222'',
       amount = ''1004500'',
       nonce = ''0x'' @ replicate 64 (CHR ''a''),
       deadline = Num 1763218800 \<rparr>"

definition example_permit :: Permit where
  "example_permit =
     \<lparr> permit_owner = ''0x3333333333333333333333333333333333333333'',
       permit_spender = ''0x4444444444444444444444444444444444444444'',
       permit_value = ''1004500'',
       permit_deadline = Num 1763218800,
       permit_nonce = ''0x'' @ replicate 64 (CHR ''b''),
       permit_sig = ''0x'' @ replicate 128 (CHR ''c'') @ ''1b'' \<rparr>"

text \<open>
  An \<open>isAddress\<close> that tests the format \<open>/^0x[a-fA-F0-9]{40}$/\<close> on its argument and
  does not look at the checksum. It stands for viem's in the examples, whose addresses
  have no upper-case letter.
\<close>

definition regex_isAddress :: "jsval \<Rightarrow> string + bool" where
  "regex_isAddress v = regex_test_0x_hex 40 v"

text \<open>A well-formed permit and well-formed requirements, as the validators receive them.\<close>

definition example_permit_props :: "(string \<times> jsval) list" where
  "example_permit_props =
     [(''owner'', JStr ''0x3333333333333333333333333333333333333333''),
      (''spender'', JStr ''0x4444444444444444444444444444444444444444''),
      (''value'', JStr ''1004500''),
      (''deadline'', JNum (Num 1763218800)),
      (''nonce'', JStr (''0x'' @ replicate 64 (CHR ''b''))),
      (''sig'', JStr (''0x'' @ replicate 130 (CHR ''c'')))]"

definition example_requirements_props :: "(string \<times> jsval) list" where
  "example_requirements_props =
     [(''network'', JStr ''arbitrum''),
      (''token'', JStr ''0xaf88d065e77c8cc2239327c5edb3a432268e5831''),
      (''recipient'', JStr ''0x2222222222222222222222222222222222222222''),
      (''amount'', JStr ''1004500''),
      (''nonce'', JStr (''0x'' @ replicate 64 (CHR ''a''))),
      (''deadline'', JNum (Num 1763218800))]"

text \<open>A store with three datasets, the one created last expiring before the second.\<close>

definition dataset_row :: "string \<Rightarrow> timestamp \<Rightarrow> timestamp \<Rightarrow> SharedDataset" where
  "dataset_row i created expires =
     \<lparr> ds_id = i, ds_items = [], ds_created_at = created, ds_expires_at = expires \<rparr>"

definition example_db :: db where
  "example_db =
     \<lparr> shared_datasets =
         [dataset_row ''first'' 1000 2000, dataset_row ''second'' 3000 9000,
          dataset_row ''third'' 5000 6000],
       entitlements = [],
       next_id = ''entitlement-1'',
       db_clock = 7000,
       query_log = [] \<rparr>"

text \<open>A response with the given status and text, whose body is not JSON.\<close>

definition text_response :: "nat \<Rightarrow> string \<Rightarrow> settle_data fetch_outcome" where
  "text_response code txt =
     Response \<lparr> status = code, body_text = txt, body_json = Inl ''Unexpected token'' \<rparr>"

text \<open>A response with status 200 and the JSON body \<open>{"txHash": h}\<close>.\<close>

definition ok_response :: "string \<Rightarrow> settle_data fetch_outcome" where
  "ok_response h =
     Response \<lparr> status = 200, body_text = ''{\"txHash\":\"'' @ h @ ''\"}'',
                body_json = Inr \<lparr> d_txHash = Some h, d_transactionHash = None, d_meta = None \<rparr> \<rparr>"

section \<open>The retry loop\<close>

lemma timeline_append: "timeline (xs @ ys) = timeline xs @ timeline ys"
  by (induction xs rule: timeline.induct) simp_all












lemma settle_loop_step:
  "a \<le> maxRetries \<Longrightarrow>
     settle_loop cfg fac req a le =
       (case settle_try cfg fac req a of
           (Returned result, effects) \<Rightarrow> (Inr result, effects)
         | (Completed, effects) \<Rightarrow>
             (fst (settle_loop cfg fac req (a + 1) le),
              effects @ snd (settle_loop cfg fac req (a + 1) le))
         | (Thrown msg, effects) \<Rightarrow>
             if a = maxRetries then
               (Inl (''Payment settlement failed after '' @ toString_nat maxRetries
                     @ '' attempts: '' @ msg), effects)
             else
               (fst (settle_loop cfg fac req (a + 1) (Some msg)),
                effects @ [Sleep (retryDelay a)] @ snd (settle_loop cfg fac req (a + 1) (Some msg))))"
  by (subst settle_loop.simps) (simp add: Let_def split: prod.splits try_end.splits)

lemma settle_loop_past_end:
  "\<not> a \<le> maxRetries \<Longrightarrow> snd (settle_loop cfg fac req a le) = []"
  by (subst settle_loop.simps) simp

lemma settle_loop_effects_all:
  assumes tr: "\<And>a e es. settle_try cfg fac req a = (e, es) \<Longrightarrow> list_all P es"
    and sl: "\<And>ms. P (Sleep ms)"
  shows "list_all P (snd (settle_loop cfg fac req a le))"
proof (induction "maxRetries + 1 - a" arbitrary: a le)
  case 0
  then have "\<not> a \<le> maxRetries" by simp
  then show ?case by (simp add: settle_loop_past_end)
next
  case (Suc m)
  then have a: "a \<le> maxRetries" and m: "m = maxRetries + 1 - (a + 1)" by simp_all
  obtain e es where t: "settle_try cfg fac req a = (e, es)"
    by (cases "settle_try cfg fac req a")
  from tr [OF t] have es: "list_all P es" .
  from Suc.hyps(1) [OF m] have rest: "\<And>le'. list_all P (snd (settle_loop cfg fac req (a + 1) le'))" .
  show ?case
    unfolding settle_loop_step [OF a]
    using t es rest sl by (cases e) simp_all
qed

lemma settle_try_no_bypass_log:
  "settle_try cfg fac req a = (e, es) \<Longrightarrow>
     list_all (\<lambda>x. x \<noteq> Log ''Using dev bypass mode for settlement'') es"
  by (auto simp: settle_try_def Let_def split: fetch_outcome.splits if_splits sum.splits)

lemma settle_try_body:
  "settle_try cfg fac req a = (e, es) \<Longrightarrow>
     list_all (\<lambda>x. \<forall>u k b. x = FetchSettle u k b \<longrightarrow> b = req) es"
  by (auto simp: settle_try_def Let_def split: fetch_outcome.splits if_splits sum.splits)

lemma settle_bodies_all:
  "list_all (\<lambda>x. \<forall>u k b. x = FetchSettle u k b \<longrightarrow> b = req) es \<Longrightarrow>
     \<forall>body \<in> set (settle_bodies es). body = req"
  by (induction es rule: settle_bodies.induct) simp_all

lemma settle_try_indep:
  assumes "\<And>n u k b b'. fac n u k b = fac n u k b'"
  shows "fst (settle_try cfg fac req a) = fst (settle_try cfg fac req' a) \<and>
         timeline (snd (settle_try cfg fac req a)) = timeline (snd (settle_try cfg fac req' a))"
  using assms [of a "FACILITATOR_API_URL cfg @ ''/settle''" "FACILITATOR_API_KEY cfg" req req']
  by (simp add: settle_try_def Let_def split: fetch_outcome.splits sum.splits)

lemma settle_loop_indep:
  assumes ind: "\<And>n u k b b'. fac n u k b = fac n u k b'"
  shows "fst (settle_loop cfg fac req a le) = fst (settle_loop cfg fac req' a le) \<and>
         timeline (snd (settle_loop cfg fac req a le)) = timeline (snd (settle_loop cfg fac req' a le))"
proof (induction "maxRetries + 1 - a" arbitrary: a le)
  case 0
  then have "\<not> a \<le> maxRetries" by simp
  then show ?case by (simp add: settle_loop.simps [of cfg fac _ a])
next
  case (Suc m)
  then have a: "a \<le> maxRetries" and m: "m = maxRetries + 1 - (a + 1)" by simp_all
  obtain e es where t: "settle_try cfg fac req a = (e, es)"
    by (cases "settle_try cfg fac req a")
  obtain e' es' where t': "settle_try cfg fac req' a = (e', es')"
    by (cases "settle_try cfg fac req' a")
  from settle_try_indep [of fac cfg req a req', OF ind] t t'
  have same: "e' = e" "timeline es' = timeline es" by simp_all
  note rest = Suc.hyps(1) [OF m]
  show ?case
    unfolding settle_loop_step [OF a]
    using t t' same rest by (cases e) (simp_all add: timeline_append)
qed




section \<open>Claims about settlePayment\<close>




lemma settle_loop_no_bypass_log:
  "Log ''Using dev bypass mode for settlement'' \<notin> set (snd (settle_loop cfg fac req a le))"
  using settle_loop_effects_all [of cfg fac req "\<lambda>x. x \<noteq> Log ''Using dev bypass mode for settlement''" a le]
    settle_try_no_bypass_log [of cfg fac req]
  by (auto simp: list_all_iff)

lemma settle_loop_bodies:
  "\<forall>body \<in> set (settle_bodies (snd (settle_loop cfg fac req a le))). body = req"
  using settle_loop_effects_all [of cfg fac req "\<lambda>x. \<forall>u k b. x = FetchSettle u k b \<longrightarrow> b = req" a le]
    settle_try_body [of cfg fac req]
  by (intro settle_bodies_all) simp

text \<open>
  C1. The claim: a non-success response that is not retryable makes \<open>settlePayment\<close>
  fail after exactly one facilitator call, with no wait. The code throws for such a
  response, but the \<open>throw\<close> stands inside the \<open>try\<close> block, so its own \<open>catch\<close>
  block takes the error and retries. With a facilitator that always answers HTTP 400
  and the text \<open>insufficient funds\<close>, a terminal failure, the run makes 4 calls, waits 1000,
  2000 and 4000 milliseconds between them, and fails only then.
\<close>

theorem settlePayment_terminal_failure_retried:
  "terminal_failure \<lparr> status = 400, body_text = ''insufficient funds'',
                      body_json = (Inl ''Unexpected token'' :: string + settle_data) \<rparr>
   \<and> text_response 400 ''insufficient funds'' =
       Response \<lparr> status = 400, body_text = ''insufficient funds'',
                  body_json = Inl ''Unexpected token'' \<rparr>
   \<and> timeline (snd (settlePayment example_config
          (\<lambda>n u k b. text_response 400 ''insufficient funds'')
          example_requirements example_permit None)) =
       [Call, Wait 1000, Call, Wait 2000, Call, Wait 4000, Call]
   \<and> calls (snd (settlePayment example_config
          (\<lambda>n u k b. text_response 400 ''insufficient funds'')
          example_requirements example_permit None)) = 4
   \<and> fst (settlePayment example_config
          (\<lambda>n u k b. text_response 400 ''insufficient funds'')
          example_requirements example_permit None) =
       Inl ''Payment settlement failed after 4 attempts: Payment settlement failed: insufficient funds''"
proof -
  have run: "settlePayment example_config
          (\<lambda>n u k b. text_response 400 ''insufficient funds'')
          example_requirements example_permit None =
     (Inl ''Payment settlement failed after 4 attempts: Payment settlement failed: insufficient funds'',
      [FetchSettle ''https://facilitator.example/settle'' ''key''
         (facilitatorRequest_settle example_config example_requirements example_permit),
       Sleep 1000,
       FetchSettle ''https://facilitator.example/settle'' ''key''
         (facilitatorRequest_settle example_config example_requirements example_permit),
       Sleep 2000,
       FetchSettle ''https://facilitator.example/settle'' ''key''
         (facilitatorRequest_settle example_config example_requirements example_permit),
       Sleep 4000,
       FetchSettle ''https://facilitator.example/settle'' ''key''
         (facilitatorRequest_settle example_config example_requirements example_permit)])"
    by (simp add: settlePayment_def devBypassActive_def settle_loop_step
      settle_try_def text_response_def response_ok_def maxRetries_def Let_def retryDelay_def
      baseRetryDelay_def toString_nat.simps)
      (simp add: example_config_def)
  have tf: "terminal_failure \<lparr> status = 400, body_text = ''insufficient funds'',
                      body_json = (Inl ''Unexpected token'' :: string + settle_data) \<rparr>"
    by (simp add: terminal_failure_def response_ok_def)
  show ?thesis
    unfolding run using tf by (simp add: calls_def text_response_def)
qed

text \<open>
  C10. \<open>settlePayment\<close> does not compare the permit with the requirements. The body it
  assembles carries the amount of the requirements and the value of the permit as they
  are (and likewise both deadlines and the nonce of the permit), every request of a run
  has that body, and the result and the calls and waits of a run depend on the
  requirements and the permit only through what the facilitator answers: for a
  facilitator whose answers do not depend on the body they are the same for any two
  pairs, the matching and the mismatched.
\<close>

theorem settlePayment_forwards_unchecked:
  "sr_amount (facilitatorRequest_settle cfg requirements permit) = amount requirements
   \<and> sr_pr_amount (facilitatorRequest_settle cfg requirements permit) = amount requirements
   \<and> permit_value (sr_permit (facilitatorRequest_settle cfg requirements permit)) = permit_value permit
   \<and> pp_value (sr_pp_payload (facilitatorRequest_settle cfg requirements permit)) = permit_value permit
   \<and> sr_deadline (facilitatorRequest_settle cfg requirements permit) = deadline requirements
   \<and> permit_deadline (sr_permit (facilitatorRequest_settle cfg requirements permit)) = permit_deadline permit
   \<and> pp_validBefore (sr_pp_payload (facilitatorRequest_settle cfg requirements permit)) = permit_deadline permit
   \<and> permit_nonce (sr_permit (facilitatorRequest_settle cfg requirements permit)) = permit_nonce permit
   \<and> pp_nonce (sr_pp_payload (facilitatorRequest_settle cfg requirements permit)) = permit_nonce permit
   \<and> (\<forall>body \<in> set (settle_bodies (snd (settlePayment cfg fac requirements permit devBypass))).
          body = facilitatorRequest_settle cfg requirements permit)
   \<and> ((\<forall>n u k b b'. fac n u k b = fac n u k b') \<longrightarrow>
        fst (settlePayment cfg fac requirements permit devBypass) =
          fst (settlePayment cfg fac requirements' permit' devBypass)
        \<and> timeline (snd (settlePayment cfg fac requirements permit devBypass)) =
          timeline (snd (settlePayment cfg fac requirements' permit' devBypass)))"
proof -
  have fields: "sr_amount (facilitatorRequest_settle cfg requirements permit) = amount requirements
   \<and> sr_pr_amount (facilitatorRequest_settle cfg requirements permit) = amount requirements
   \<and> permit_value (sr_permit (facilitatorRequest_settle cfg requirements permit)) = permit_value permit
   \<and> pp_value (sr_pp_payload (facilitatorRequest_settle cfg requirements permit)) = permit_value permit
   \<and> sr_deadline (facilitatorRequest_settle cfg requirements permit) = deadline requirements
   \<and> permit_deadline (sr_permit (facilitatorRequest_settle cfg requirements permit)) = permit_deadline permit
   \<and> pp_validBefore (sr_pp_payload (facilitatorRequest_settle cfg requirements permit)) = permit_deadline permit
   \<and> permit_nonce (sr_permit (facilitatorRequest_settle cfg requirements permit)) = permit_nonce permit
   \<and> pp_nonce (sr_pp_payload (facilitatorRequest_settle cfg requirements permit)) = permit_nonce permit"
    by (simp add: facilitatorRequest_settle_def Let_def)
  have bodies: "\<forall>body \<in> set (settle_bodies (snd (settlePayment cfg fac requirements permit devBypass))).
          body = facilitatorRequest_settle cfg requirements permit"
    using settle_loop_bodies [of cfg fac "facilitatorRequest_settle cfg requirements permit" 1 None]
    by (simp add: settlePayment_def)
  have indep: "(\<forall>n u k b b'. fac n u k b = fac n u k b') \<longrightarrow>
        fst (settlePayment cfg fac requirements permit devBypass) =
          fst (settlePayment cfg fac requirements' permit' devBypass)
        \<and> timeline (snd (settlePayment cfg fac requirements permit devBypass)) =
          timeline (snd (settlePayment cfg fac requirements' permit' devBypass))"
  proof
    assume "\<forall>n u k b b'. fac n u k b = fac n u k b'"
    then have "\<And>n u k b b'. fac n u k b = fac n u k b'" by blast
    from settle_loop_indep [of fac cfg "facilitatorRequest_settle cfg requirements permit" 1 None
        "facilitatorRequest_settle cfg requirements' permit'", OF this]
    show "fst (settlePayment cfg fac requirements permit devBypass) =
          fst (settlePayment cfg fac requirements' permit' devBypass)
        \<and> timeline (snd (settlePayment cfg fac requirements permit devBypass)) =
          timeline (snd (settlePayment cfg fac requirements' permit' devBypass))"
      by (simp add: settlePayment_def)
  qed
  from fields bodies indep show ?thesis by blast
qed

text \<open>
  C3. The development-bypass branch of \<open>startPayment\<close> and of \<open>settlePayment\<close>, seen
  by the line it logs first, is taken exactly when the environment is not
  \<open>production\<close> and the caller's token is present, not empty, and equal to the
  configured secret. In production it is never taken, whatever the token.
\<close>

theorem dev_bypass_guard:
  "(Log ''Using dev bypass mode'' \<in> set (snd (startPayment cfg nowMs bytes quote walletAddress devBypass))
      \<longleftrightarrow> NODE_ENV cfg \<noteq> ''production'' \<and> DEV_BYPASS_SECRET cfg \<noteq> []
           \<and> devBypass = Some (DEV_BYPASS_SECRET cfg))
   \<and> (Log ''Using dev bypass mode for settlement''
         \<in> set (snd (settlePayment cfg fac requirements permit devBypass))
      \<longleftrightarrow> NODE_ENV cfg \<noteq> ''production'' \<and> DEV_BYPASS_SECRET cfg \<noteq> []
           \<and> devBypass = Some (DEV_BYPASS_SECRET cfg))
   \<and> (NODE_ENV cfg = ''production'' \<longrightarrow>
        Log ''Using dev bypass mode'' \<notin> set (snd (startPayment cfg nowMs bytes quote walletAddress devBypass))
        \<and> Log ''Using dev bypass mode for settlement''
             \<notin> set (snd (settlePayment cfg fac requirements permit devBypass)))"
proof -
  have guard: "devBypassActive cfg devBypass \<longleftrightarrow>
      NODE_ENV cfg \<noteq> ''production'' \<and> DEV_BYPASS_SECRET cfg \<noteq> []
      \<and> devBypass = Some (DEV_BYPASS_SECRET cfg)"
    by (auto simp: devBypassActive_def truthy_string_def)
  have start: "Log ''Using dev bypass mode'' \<in> set (snd (startPayment cfg nowMs bytes quote walletAddress devBypass))
      \<longleftrightarrow> devBypassActive cfg devBypass"
    by (simp add: startPayment_def Let_def
        split: fetch_outcome.splits sum.splits option.splits list.splits)
  have settle: "Log ''Using dev bypass mode for settlement''
         \<in> set (snd (settlePayment cfg fac requirements permit devBypass))
      \<longleftrightarrow> devBypassActive cfg devBypass"
    using settle_loop_no_bypass_log [of cfg fac "facilitatorRequest_settle cfg requirements permit" 1 None]
    by (simp add: settlePayment_def)
  from start settle show ?thesis unfolding guard by simp
qed


lemma set_singleton_all: "xs \<noteq> [] \<Longrightarrow> \<forall>x \<in> set xs. x = y \<Longrightarrow> set xs = {y}"
  by (cases xs) auto

text \<open>
  A permit for the value 1 against requirements for the amount 1004500, and a
  facilitator that accepts: both values are sent as they are and the settlement succeeds.
\<close>

theorem settlePayment_forwards_unchecked_witness:
  "amount example_requirements \<noteq> permit_value (example_permit\<lparr>permit_value := ''1''\<rparr>)
   \<and> set (settle_bodies (snd (settlePayment example_config (\<lambda>n u k b. ok_response ''0xfeed'')
          example_requirements (example_permit\<lparr>permit_value := ''1''\<rparr>) None))) =
       {facilitatorRequest_settle example_config example_requirements
          (example_permit\<lparr>permit_value := ''1''\<rparr>)}
   \<and> sr_amount (facilitatorRequest_settle example_config example_requirements
          (example_permit\<lparr>permit_value := ''1''\<rparr>)) = ''1004500''
   \<and> sr_pr_amount (facilitatorRequest_settle example_config example_requirements
          (example_permit\<lparr>permit_value := ''1''\<rparr>)) = ''1004500''
   \<and> permit_value (sr_permit (facilitatorRequest_settle example_config example_requirements
          (example_permit\<lparr>permit_value := ''1''\<rparr>))) = ''1''
   \<and> pp_value (sr_pp_payload (facilitatorRequest_settle example_config example_requirements
          (example_permit\<lparr>permit_value := ''1''\<rparr>))) = ''1''
   \<and> fst (settlePayment example_config (\<lambda>n u k b. ok_response ''0xfeed'')
          example_requirements (example_permit\<lparr>permit_value := ''1''\<rparr>) None) =
       Inr \<lparr> res_success = True, res_txHash = ''0xfeed'',
             res_facilitatorResponse =
               Some \<lparr> d_txHash = Some ''0xfeed'', d_transactionHash = None, d_meta = None \<rparr> \<rparr>"
proof -
  note inst = settlePayment_forwards_unchecked [of example_config example_requirements
      "example_permit\<lparr>permit_value := ''1''\<rparr>" "\<lambda>n u k b. ok_response ''0xfeed''" None
      example_requirements example_permit]
  have mismatch: "amount example_requirements \<noteq> permit_value (example_permit\<lparr>permit_value := ''1''\<rparr>)"
    by (simp add: example_requirements_def)
  have matched: "fst (settlePayment example_config (\<lambda>n u k b. ok_response ''0xfeed'')
          example_requirements example_permit None) =
       Inr \<lparr> res_success = True, res_txHash = ''0xfeed'',
             res_facilitatorResponse =
               Some \<lparr> d_txHash = Some ''0xfeed'', d_transactionHash = None, d_meta = None \<rparr> \<rparr>"
    by (simp add: settlePayment_def devBypassActive_def settle_loop_step settle_try_def
        ok_response_def response_ok_def maxRetries_def Let_def extract_txHash_def)
      (simp add: example_config_def)
  have sent: "settle_bodies (snd (settlePayment example_config (\<lambda>n u k b. ok_response ''0xfeed'')
          example_requirements (example_permit\<lparr>permit_value := ''1''\<rparr>) None)) \<noteq> []"
    by (simp add: settlePayment_def devBypassActive_def settle_loop_step settle_try_def
        ok_response_def response_ok_def maxRetries_def Let_def extract_txHash_def)
      (simp add: example_config_def)
  have ignores: "\<forall>n u k b b'. (\<lambda>n u k b. ok_response ''0xfeed'') n u k b
       = (\<lambda>n u k b. ok_response ''0xfeed'') n (u::string) (k::string) (b'::settle_request)"
    by simp
  from inst ignores matched have res: "fst (settlePayment example_config (\<lambda>n u k b. ok_response ''0xfeed'')
          example_requirements (example_permit\<lparr>permit_value := ''1''\<rparr>) None) =
       Inr \<lparr> res_success = True, res_txHash = ''0xfeed'',
             res_facilitatorResponse =
               Some \<lparr> d_txHash = Some ''0xfeed'', d_transactionHash = None, d_meta = None \<rparr> \<rparr>"
    by simp
  from inst have b: "\<forall>body \<in> set (settle_bodies (snd (settlePayment example_config
          (\<lambda>n u k b. ok_response ''0xfeed'')
          example_requirements (example_permit\<lparr>permit_value := ''1''\<rparr>) None))).
      body = facilitatorRequest_settle example_config example_requirements
               (example_permit\<lparr>permit_value := ''1''\<rparr>)"
    by blast
  from sent b have bodies: "set (settle_bodies (snd (settlePayment example_config
          (\<lambda>n u k b. ok_response ''0xfeed'')
          example_requirements (example_permit\<lparr>permit_value := ''1''\<rparr>) None))) =
       {facilitatorRequest_settle example_config example_requirements
          (example_permit\<lparr>permit_value := ''1''\<rparr>)}"
    by (rule set_singleton_all)
  from inst have f:
    "sr_amount (facilitatorRequest_settle example_config example_requirements
               (example_permit\<lparr>permit_value := ''1''\<rparr>)) = amount example_requirements"
    "sr_pr_amount (facilitatorRequest_settle example_config example_requirements
               (example_permit\<lparr>permit_value := ''1''\<rparr>)) = amount example_requirements"
    "permit_value (sr_permit (facilitatorRequest_settle example_config example_requirements
               (example_permit\<lparr>permit_value := ''1''\<rparr>)))
       = permit_value (example_permit\<lparr>permit_value := ''1''\<rparr>)"
    "pp_value (sr_pp_payload (facilitatorRequest_settle example_config example_requirements
               (example_permit\<lparr>permit_value := ''1''\<rparr>)))
       = permit_value (example_permit\<lparr>permit_value := ''1''\<rparr>)"
    by blast+
  have v: "amount example_requirements = ''1004500''"
    "permit_value (example_permit\<lparr>permit_value := ''1''\<rparr>) = ''1''"
    by (simp_all add: example_requirements_def)
  have fv:
    "sr_amount (facilitatorRequest_settle example_config example_requirements
               (example_permit\<lparr>permit_value := ''1''\<rparr>)) = ''1004500''"
    "sr_pr_amount (facilitatorRequest_settle example_config example_requirements
               (example_permit\<lparr>permit_value := ''1''\<rparr>)) = ''1004500''"
    "permit_value (sr_permit (facilitatorRequest_settle example_config example_requirements
               (example_permit\<lparr>permit_value := ''1''\<rparr>))) = ''1''"
    "pp_value (sr_pp_payload (facilitatorRequest_settle example_config example_requirements
               (example_permit\<lparr>permit_value := ''1''\<rparr>))) = ''1''"
    by (simp_all only: f v)
  show ?thesis
    by (intro conjI) (rule mismatch bodies fv res)+
qed

text \<open>
  The right token takes the bypass in a development environment and does not in
  production.
\<close>

theorem dev_bypass_guard_witness:
  "Log ''Using dev bypass mode''
     \<in> set (snd (startPayment (example_config\<lparr>NODE_ENV := ''development''\<rparr>) 1700000000000 []
                  (\<lambda>u b. Rejected ''fetch failed'') ''0x3333333333333333333333333333333333333333''
                  (Some ''let-me-in'')))
   \<and> Log ''Using dev bypass mode''
     \<notin> set (snd (startPayment example_config 1700000000000 []
                  (\<lambda>u b. Rejected ''fetch failed'') ''0x3333333333333333333333333333333333333333''
                  (Some ''let-me-in'')))
   \<and> Log ''Using dev bypass mode for settlement''
     \<in> set (snd (settlePayment (example_config\<lparr>NODE_ENV := ''development''\<rparr>)
                  (\<lambda>n u k b. Rejected ''fetch failed'') example_requirements example_permit
                  (Some ''let-me-in'')))
   \<and> Log ''Using dev bypass mode for settlement''
     \<notin> set (snd (settlePayment example_config
                  (\<lambda>n u k b. Rejected ''fetch failed'') example_requirements example_permit
                  (Some ''let-me-in'')))"
  using dev_bypass_guard [of "example_config\<lparr>NODE_ENV := ''development''\<rparr>" 1700000000000 "[]"
      "\<lambda>u b. Rejected ''fetch failed''" "''0x3333333333333333333333333333333333333333''"
      "Some ''let-me-in''" "\<lambda>n u k b. Rejected ''fetch failed''" example_requirements example_permit]
    dev_bypass_guard [of example_config 1700000000000 "[]"
      "\<lambda>u b. Rejected ''fetch failed''" "''0x3333333333333333333333333333333333333333''"
      "Some ''let-me-in''" "\<lambda>n u k b. Rejected ''fetch failed''" example_requirements example_permit]
  by (simp add: example_config_def)

section \<open>Claims about startPayment\<close>

text \<open>
  C4. On the live quote path the total is computed on integers of the smallest unit:
  \<open>serviceFee = merchantAmount * 50 / 10000\<close> with integer division, here without
  remainder, and \<open>totalAmount = merchantAmount + serviceFee + gasFee\<close>. With the merchant
  amount 900000 and 50 basis points the service fee is 4500, the gas fee is 100000 and
  the total is 1004500, and \<open>1004500\<close> is the amount of the quote request sent.
\<close>

theorem live_quote_total_amount:
  "merchantAmount = 900000
   \<and> serviceFee = merchantAmount * 50 div 10000
   \<and> merchantAmount * 50 mod 10000 = 0
   \<and> serviceFee = 4500
   \<and> gasFee = 100000
   \<and> totalAmount = merchantAmount + serviceFee + gasFee
   \<and> totalAmount = 1004500
   \<and> (\<not> devBypassActive cfg devBypass \<and> FACILITATOR_API_URL cfg \<noteq> [] \<and> MERCHANT_ADDRESS cfg \<noteq> []
        \<longrightarrow> snd (startPayment cfg nowMs bytes quote walletAddress devBypass) =
              [FetchRequirements (FACILITATOR_API_URL cfg @ ''/requirements'')
                 \<lparr> q_amount = ''1004500'', q_memo = ''EdgeFinder scan'', q_network = ''arbitrum'',
                   q_token = ''USDC'', q_extra_merchantAddress = MERCHANT_ADDRESS cfg \<rparr>])"
proof -
  have amounts: "merchantAmount = 900000" "serviceFee = 4500" "gasFee = 100000"
    "totalAmount = 1004500"
    by (simp_all add: merchantAmount_def serviceFee_def gasFee_def totalAmount_def)
  have formula: "serviceFee = merchantAmount * 50 div 10000"
    "merchantAmount * 50 mod 10000 = 0"
    "totalAmount = merchantAmount + serviceFee + gasFee"
    by (simp_all add: merchantAmount_def serviceFee_def gasFee_def totalAmount_def)
  have str: "toString_int totalAmount = ''1004500''"
    by (simp add: amounts toString_int_def toString_nat.simps)
  have sent: "\<not> devBypassActive cfg devBypass \<and> FACILITATOR_API_URL cfg \<noteq> [] \<and> MERCHANT_ADDRESS cfg \<noteq> []
        \<longrightarrow> snd (startPayment cfg nowMs bytes quote walletAddress devBypass) =
              [FetchRequirements (FACILITATOR_API_URL cfg @ ''/requirements'')
                 \<lparr> q_amount = ''1004500'', q_memo = ''EdgeFinder scan'', q_network = ''arbitrum'',
                   q_token = ''USDC'', q_extra_merchantAddress = MERCHANT_ADDRESS cfg \<rparr>]"
    by (simp add: startPayment_def Let_def facilitatorRequest_start_def str
        split: fetch_outcome.splits sum.splits option.splits list.splits)
  from amounts formula sent show ?thesis by blast
qed

text \<open>The quote request of a run on the live path.\<close>

theorem live_quote_total_amount_witness:
  "snd (startPayment example_config 1700000000000 [] (\<lambda>u b. Rejected ''fetch failed'')
          ''0x3333333333333333333333333333333333333333'' None) =
     [FetchRequirements ''https://facilitator.example/requirements''
        \<lparr> q_amount = ''1004500'', q_memo = ''EdgeFinder scan'', q_network = ''arbitrum'',
          q_token = ''USDC'',
          q_extra_merchantAddress = ''0x1111111111111111111111111111111111111111'' \<rparr>]"
  using live_quote_total_amount [of example_config None 1700000000000 "[]"
      "\<lambda>u b. Rejected ''fetch failed''" "''0x3333333333333333333333333333333333333333''"]
  by (simp add: example_config_def devBypassActive_def truthy_string_def)

text \<open>
  C7. The claim: when the accepted offer has no deadline, the deadline returned is the
  current Unix time in seconds plus 3600. The code returns \<open>Date.now() + 3600000\<close>, one
  hour from now in milliseconds, where every other deadline of the program is in seconds
  (the bypass path computes \<open>Math.floor(Date.now() / 1000) + 3600\<close>, \<open>validatePermit\<close>
  compares a deadline with \<open>Math.floor(Date.now() / 1000)\<close>). At \<open>Date.now() =
  1700000000000\<close> the live path returns the deadline 1700003600000, the claim and the
  bypass path give 1700003600.
\<close>

theorem live_quote_default_deadline_in_milliseconds:
  "fst (startPayment example_config 1700000000000 []
          (\<lambda>u b. Response \<lparr> status = 402, body_text = [],
               body_json = Inr \<lparr> accepts = Some
                 [\<lparr> acc_network = ''arbitrum'', acc_asset = PAYMENT_USDC_ADDRESS,
                    acc_payTo = ''0x2222222222222222222222222222222222222222'',
                    acc_maxAmountRequired = ''1004500'', acc_extra = None \<rparr>] \<rparr> \<rparr>)
          ''0x3333333333333333333333333333333333333333'' None) =
     Inr \<lparr> network = ''arbitrum'', token = PAYMENT_USDC_ADDRESS,
           recipient = ''0x2222222222222222222222222222222222222222'',
           amount = ''1004500'', nonce = [], deadline = Num 1700003600000 \<rparr>
   \<and> Num (of_int (unix_seconds 1700000000000 + 3600)) = Num 1700003600
   \<and> deadline (createDevBypassResponse 1700000000000 []) = Num 1700003600"
  by (simp add: startPayment_def Let_def example_config_def devBypassActive_def truthy_string_def
      response_ok_def createDevBypassResponse_def unix_seconds_def)

section \<open>Claims about the validators\<close>

lemma permit_fields_truthy_iff:
  "list_all (\<lambda>field. truthy (get_prop p field)) permit_requiredFields \<longleftrightarrow>
     truthy (get_prop p ''owner'') \<and> truthy (get_prop p ''spender'')
     \<and> truthy (get_prop p ''value'') \<and> truthy (get_prop p ''deadline'')
     \<and> truthy (get_prop p ''nonce'') \<and> truthy (get_prop p ''sig'')"
  by (simp add: permit_requiredFields_def)

lemma requirements_fields_truthy_iff:
  "list_all (\<lambda>field. truthy (get_prop r field)) requirements_requiredFields \<longleftrightarrow>
     truthy (get_prop r ''network'') \<and> truthy (get_prop r ''token'')
     \<and> truthy (get_prop r ''recipient'') \<and> truthy (get_prop r ''amount'')
     \<and> truthy (get_prop r ''nonce'') \<and> truthy (get_prop r ''deadline'')"
  by (simp add: requirements_requiredFields_def)

lemma test_0x_hex_iff:
  "test_0x_hex n s \<longleftrightarrow> (\<exists>h. s = ''0x'' @ h \<and> length h = n \<and> list_all is_hex_digit h)"
proof
  assume a: "test_0x_hex n s"
  then have "s = take 2 s @ drop 2 s" by simp
  with a have "s = ''0x'' @ drop 2 s" by (simp add: test_0x_hex_def)
  with a show "\<exists>h. s = ''0x'' @ h \<and> length h = n \<and> list_all is_hex_digit h"
    unfolding test_0x_hex_def by blast
next
  assume "\<exists>h. s = ''0x'' @ h \<and> length h = n \<and> list_all is_hex_digit h"
  then show "test_0x_hex n s" by (auto simp: test_0x_hex_def)
qed

lemma number_le_gt: "truthy_number d \<Longrightarrow> (\<not> number_le d (Num b)) = number_gt d (Num b)"
  by (cases d) auto

lemma number_le_not_gt: "number_le d n \<Longrightarrow> \<not> number_gt d n"
  by (cases d; cases n) auto

lemma regex_test_JStr: "regex_test_0x_hex n (JStr s) = Inr (test_0x_hex n s)"
  by (simp add: regex_test_0x_hex_def)

lemma regex_test_JUndefined: "regex_test_0x_hex n JUndefined = Inr False"
  by (simp add: regex_test_0x_hex_def test_0x_hex_def)

lemma js_le_int_JNum: "js_le_int nearest (JNum d) now = Inr (number_le d (Num (of_int now)))"
  by (simp add: js_le_int_def js_ToNumber_def)

lemma not_object_no_fields:
  "\<not> truthy p \<or> \<not> typeof_object p \<Longrightarrow> get_prop p name = JUndefined"
  by (cases p) auto

lemma absent_or_string_cases: "absent_or_string v \<Longrightarrow> v = JUndefined \<or> (\<exists>s. v = JStr s)"
  by (cases v) auto

lemma absent_or_number_cases: "absent_or_number v \<Longrightarrow> v = JUndefined \<or> (\<exists>d. v = JNum d)"
  by (cases v) auto

text \<open>The result for a permit whose sig and nonce are strings and whose deadline is a number.\<close>

lemma validatePermit_typed:
  assumes "get_prop p ''sig'' = JStr sg" "get_prop p ''nonce'' = JStr nc"
    "get_prop p ''deadline'' = JNum d"
  shows "validatePermit isAddress nearest nowMs p =
     (if \<not> truthy p \<or> \<not> typeof_object p then Inr False
      else if \<not> (truthy (get_prop p ''owner'') \<and> truthy (get_prop p ''spender'')
                 \<and> truthy (get_prop p ''value'') \<and> truthy_number d
                 \<and> nc \<noteq> [] \<and> sg \<noteq> []) then Inr False
      else (case isAddress (get_prop p ''owner'') of
              Inl e \<Rightarrow> Inl e
            | Inr owner_ok \<Rightarrow>
                if \<not> owner_ok then Inr False
                else (case isAddress (get_prop p ''spender'') of
                        Inl e \<Rightarrow> Inl e
                      | Inr spender_ok \<Rightarrow>
                          Inr (spender_ok \<and> test_0x_hex 130 sg \<and> test_0x_hex 64 nc
                               \<and> \<not> number_le d (Num (of_int (nowMs div 1000)))))))"
  using assms
  by (simp add: validatePermit_def permit_fields_truthy_iff validateWalletAddress_def
      regex_test_JStr js_le_int_JNum unix_seconds_def split: sum.splits)

lemma validatePermit_falsy_field:
  assumes "\<not> truthy (get_prop p ''sig'') \<or> \<not> truthy (get_prop p ''nonce'')
     \<or> \<not> truthy (get_prop p ''deadline'')"
  shows "validatePermit isAddress nearest nowMs p = Inr False"
  using assms by (auto simp: validatePermit_def permit_fields_truthy_iff)

lemma validatePermit_expired:
  assumes "get_prop p ''deadline'' = JNum d" "number_le d (Num (of_int (nowMs div 1000)))"
  shows "validatePermit isAddress nearest nowMs p \<noteq> Inr True"
  using assms
  by (simp add: validatePermit_def js_le_int_JNum unix_seconds_def split: sum.splits)

lemma validatePermit_sig_length:
  assumes "get_prop p ''sig'' = JStr s" "length s \<noteq> 132"
  shows "validatePermit isAddress nearest nowMs p \<noteq> Inr True"
proof -
  from assms(2) have "\<not> test_0x_hex 130 s" by (auto simp: test_0x_hex_iff)
  with assms(1) show ?thesis
    by (simp add: validatePermit_def regex_test_JStr split: sum.splits)
qed

lemma validatePermit_typed_iff:
  assumes t: "absent_or_string (get_prop p ''sig'')" "absent_or_string (get_prop p ''nonce'')"
    "absent_or_number (get_prop p ''deadline'')"
  shows "validatePermit isAddress nearest nowMs p = Inr True \<longleftrightarrow>
     (\<exists>props sg nc d hs hn.
        p = JObj props
        \<and> truthy (get_prop p ''owner'') \<and> truthy (get_prop p ''spender'')
        \<and> truthy (get_prop p ''value'')
        \<and> get_prop p ''deadline'' = JNum d \<and> truthy (JNum d)
        \<and> get_prop p ''nonce'' = JStr nc \<and> truthy (JStr nc)
        \<and> get_prop p ''sig'' = JStr sg \<and> truthy (JStr sg)
        \<and> isAddress (get_prop p ''owner'') = Inr True
        \<and> isAddress (get_prop p ''spender'') = Inr True
        \<and> sg = ''0x'' @ hs \<and> length hs = 130 \<and> list_all is_hex_digit hs
        \<and> nc = ''0x'' @ hn \<and> length hn = 64 \<and> list_all is_hex_digit hn
        \<and> number_gt d (Num (of_int (nowMs div 1000))))"
    (is "?L \<longleftrightarrow> ?R")
proof (cases "\<exists>sg nc d. get_prop p ''sig'' = JStr sg \<and> get_prop p ''nonce'' = JStr nc
    \<and> get_prop p ''deadline'' = JNum d")
  case False
  with t absent_or_string_cases [of "get_prop p ''sig''"]
    absent_or_string_cases [of "get_prop p ''nonce''"]
    absent_or_number_cases [of "get_prop p ''deadline''"]
  have "get_prop p ''sig'' = JUndefined \<or> get_prop p ''nonce'' = JUndefined
      \<or> get_prop p ''deadline'' = JUndefined" by blast
  then have "\<not> truthy (get_prop p ''sig'') \<or> \<not> truthy (get_prop p ''nonce'')
     \<or> \<not> truthy (get_prop p ''deadline'')" by auto
  from validatePermit_falsy_field [OF this, of isAddress nearest nowMs] have "\<not> ?L" by simp
  moreover from False have "\<not> ?R" by blast
  ultimately show ?thesis by blast
next
  case True
  then obtain sg nc d where f: "get_prop p ''sig'' = JStr sg" "get_prop p ''nonce'' = JStr nc"
    "get_prop p ''deadline'' = JNum d" by blast
  have obj: "truthy p \<and> typeof_object p \<longleftrightarrow> (\<exists>props. p = JObj props)"
    using f(1) by (cases p) auto
  note v = validatePermit_typed [OF f, of isAddress nearest nowMs]
  show ?thesis
  proof
    assume l: ?L
    with v have a: "truthy p \<and> typeof_object p"
      "truthy (get_prop p ''owner'')" "truthy (get_prop p ''spender'')"
      "truthy (get_prop p ''value'')" "truthy_number d" "nc \<noteq> []" "sg \<noteq> []"
      by (auto split: if_splits)
    with v l have b: "isAddress (get_prop p ''owner'') = Inr True"
      by (auto split: if_splits sum.splits)
    with v l a have c: "isAddress (get_prop p ''spender'') = Inr True"
      "test_0x_hex 130 sg" "test_0x_hex 64 nc"
      "\<not> number_le d (Num (of_int (nowMs div 1000)))"
      by (auto split: if_splits sum.splits)
    from c(4) a(5) have gt: "number_gt d (Num (of_int (nowMs div 1000)))"
      by (simp add: number_le_gt)
    from c(2) obtain hs where hs: "sg = ''0x'' @ hs" "length hs = 130" "list_all is_hex_digit hs"
      by (auto simp: test_0x_hex_iff)
    from c(3) obtain hn where hn: "nc = ''0x'' @ hn" "length hn = 64" "list_all is_hex_digit hn"
      by (auto simp: test_0x_hex_iff)
    from a(1) obj obtain props where "p = JObj props" by blast
    with a b c(1) gt hs hn f show ?R by auto
  next
    assume ?R
    then obtain props sg' nc' d' hs hn where r:
      "p = JObj props" "truthy (get_prop p ''owner'')" "truthy (get_prop p ''spender'')"
      "truthy (get_prop p ''value'')"
      "get_prop p ''deadline'' = JNum d'" "truthy (JNum d')"
      "get_prop p ''nonce'' = JStr nc'" "truthy (JStr nc')"
      "get_prop p ''sig'' = JStr sg'" "truthy (JStr sg')"
      "isAddress (get_prop p ''owner'') = Inr True"
      "isAddress (get_prop p ''spender'') = Inr True"
      "sg' = ''0x'' @ hs" "length hs = 130" "list_all is_hex_digit hs"
      "nc' = ''0x'' @ hn" "length hn = 64" "list_all is_hex_digit hn"
      "number_gt d' (Num (of_int (nowMs div 1000)))"
      by blast
    from r f have eq: "sg' = sg" "nc' = nc" "d' = d" by simp_all
    from r eq have t1: "test_0x_hex 130 sg" "test_0x_hex 64 nc"
      by (auto simp: test_0x_hex_iff)
    from r(19) eq have "\<not> number_le d (Num (of_int (nowMs div 1000)))"
      using number_le_not_gt by blast
    with v r eq t1 show ?L by simp
  qed
qed

lemma validatePermit_typed_returns:
  assumes t: "absent_or_string (get_prop p ''sig'')" "absent_or_string (get_prop p ''nonce'')"
    "absent_or_number (get_prop p ''deadline'')"
    and a: "\<forall>e. isAddress (get_prop p ''owner'') \<noteq> Inl e"
      "\<forall>e. isAddress (get_prop p ''spender'') \<noteq> Inl e"
  shows "\<exists>b. validatePermit isAddress nearest nowMs p = Inr b"
proof (cases "\<exists>sg nc d. get_prop p ''sig'' = JStr sg \<and> get_prop p ''nonce'' = JStr nc
    \<and> get_prop p ''deadline'' = JNum d")
  case False
  with t absent_or_string_cases [of "get_prop p ''sig''"]
    absent_or_string_cases [of "get_prop p ''nonce''"]
    absent_or_number_cases [of "get_prop p ''deadline''"]
  have "get_prop p ''sig'' = JUndefined \<or> get_prop p ''nonce'' = JUndefined
      \<or> get_prop p ''deadline'' = JUndefined" by blast
  then have "\<not> truthy (get_prop p ''sig'') \<or> \<not> truthy (get_prop p ''nonce'')
     \<or> \<not> truthy (get_prop p ''deadline'')" by auto
  from validatePermit_falsy_field [OF this, of isAddress nearest nowMs] show ?thesis by blast
next
  case True
  then obtain sg nc d where f: "get_prop p ''sig'' = JStr sg" "get_prop p ''nonce'' = JStr nc"
    "get_prop p ''deadline'' = JNum d" by blast
  from a obtain ob sb where "isAddress (get_prop p ''owner'') = Inr ob"
    "isAddress (get_prop p ''spender'') = Inr sb"
    by (metis sum.exhaust)
  then show ?thesis
    unfolding validatePermit_typed [OF f, of isAddress nearest nowMs] by auto
qed

text \<open>
  C5. The claim: \<open>validatePermit\<close> returns true exactly when the six fields are present
  and truthy, owner and spender are valid addresses, sig is \<open>0x\<close> followed by exactly 130
  hexadecimal characters, nonce is \<open>0x\<close> followed by exactly 64, and the deadline is
  strictly greater than the current time in Unix seconds. The parameter has the type
  \<open>any\<close>, and the claim holds for a permit whose sig and nonce, if present, are strings
  and whose deadline, if present, is a number, as the interface \<open>Permit\<close> has them.

  As proved: for such a permit the result is true exactly when the permit is an object,
  its six fields are truthy, \<open>isAddress\<close> accepts the owner and the spender, sig is \<open>0x\<close>
  followed by exactly 130 hexadecimal characters, nonce is \<open>0x\<close> followed by exactly 64,
  and the deadline is greater than \<open>Math.floor(Date.now() / 1000)\<close>; and the result is a
  boolean when \<open>isAddress\<close> throws on neither address. For every permit, a deadline that
  is a number less than or equal to the current time is never accepted, and neither is a
  sig that is a string of a length other than 132.
\<close>

theorem validatePermit_spec:
  "(absent_or_string (get_prop permit ''sig'') \<and> absent_or_string (get_prop permit ''nonce'')
      \<and> absent_or_number (get_prop permit ''deadline'')
     \<longrightarrow> (validatePermit isAddress nearest nowMs permit = Inr True \<longleftrightarrow>
            (\<exists>props sg nc d hs hn.
               permit = JObj props
               \<and> truthy (get_prop permit ''owner'') \<and> truthy (get_prop permit ''spender'')
               \<and> truthy (get_prop permit ''value'')
               \<and> get_prop permit ''deadline'' = JNum d \<and> truthy (JNum d)
               \<and> get_prop permit ''nonce'' = JStr nc \<and> truthy (JStr nc)
               \<and> get_prop permit ''sig'' = JStr sg \<and> truthy (JStr sg)
               \<and> isAddress (get_prop permit ''owner'') = Inr True
               \<and> isAddress (get_prop permit ''spender'') = Inr True
               \<and> sg = ''0x'' @ hs \<and> length hs = 130 \<and> list_all is_hex_digit hs
               \<and> nc = ''0x'' @ hn \<and> length hn = 64 \<and> list_all is_hex_digit hn
               \<and> number_gt d (Num (of_int (nowMs div 1000)))))
         \<and> ((\<forall>e. isAddress (get_prop permit ''owner'') \<noteq> Inl e)
              \<and> (\<forall>e. isAddress (get_prop permit ''spender'') \<noteq> Inl e)
             \<longrightarrow> (\<exists>b. validatePermit isAddress nearest nowMs permit = Inr b)))
   \<and> (\<forall>d. get_prop permit ''deadline'' = JNum d
          \<and> number_le d (Num (of_int (nowMs div 1000)))
        \<longrightarrow> validatePermit isAddress nearest nowMs permit \<noteq> Inr True)
   \<and> (\<forall>s. get_prop permit ''sig'' = JStr s \<and> length s \<noteq> 132
        \<longrightarrow> validatePermit isAddress nearest nowMs permit \<noteq> Inr True)"
proof (intro conjI allI impI)
  assume t: "absent_or_string (get_prop permit ''sig'') \<and> absent_or_string (get_prop permit ''nonce'')
      \<and> absent_or_number (get_prop permit ''deadline'')"
  then show "validatePermit isAddress nearest nowMs permit = Inr True \<longleftrightarrow>
            (\<exists>props sg nc d hs hn.
               permit = JObj props
               \<and> truthy (get_prop permit ''owner'') \<and> truthy (get_prop permit ''spender'')
               \<and> truthy (get_prop permit ''value'')
               \<and> get_prop permit ''deadline'' = JNum d \<and> truthy (JNum d)
               \<and> get_prop permit ''nonce'' = JStr nc \<and> truthy (JStr nc)
               \<and> get_prop permit ''sig'' = JStr sg \<and> truthy (JStr sg)
               \<and> isAddress (get_prop permit ''owner'') = Inr True
               \<and> isAddress (get_prop permit ''spender'') = Inr True
               \<and> sg = ''0x'' @ hs \<and> length hs = 130 \<and> list_all is_hex_digit hs
               \<and> nc = ''0x'' @ hn \<and> length hn = 64 \<and> list_all is_hex_digit hn
               \<and> number_gt d (Num (of_int (nowMs div 1000))))"
    by (intro validatePermit_typed_iff) simp_all
  assume "(\<forall>e. isAddress (get_prop permit ''owner'') \<noteq> Inl e)
              \<and> (\<forall>e. isAddress (get_prop permit ''spender'') \<noteq> Inl e)"
  with t show "\<exists>b. validatePermit isAddress nearest nowMs permit = Inr b"
    by (intro validatePermit_typed_returns) simp_all
next
  fix d
  assume "get_prop permit ''deadline'' = JNum d \<and> number_le d (Num (of_int (nowMs div 1000)))"
  then show "validatePermit isAddress nearest nowMs permit \<noteq> Inr True"
    using validatePermit_expired [of permit d nowMs isAddress nearest] by blast
next
  fix s
  assume "get_prop permit ''sig'' = JStr s \<and> length s \<noteq> 132"
  then show "validatePermit isAddress nearest nowMs permit \<noteq> Inr True"
    using validatePermit_sig_length [of permit s isAddress nearest nowMs] by blast
qed

lemma hex_replicate_b: "list_all is_hex_digit (replicate n (CHR ''b''))"
  by (simp add: list_all_iff is_hex_digit_def)

lemma hex_replicate_c: "list_all is_hex_digit (replicate n (CHR ''c''))"
  by (simp add: list_all_iff is_hex_digit_def)

lemma regex_isAddress_examples:
  "regex_isAddress (JStr ''0x3333333333333333333333333333333333333333'') = Inr True"
  "regex_isAddress (JStr ''0x4444444444444444444444444444444444444444'') = Inr True"
  "regex_isAddress (JStr ''0x2222222222222222222222222222222222222222'') = Inr True"
  "regex_isAddress (JStr ''0xaf88d065e77c8cc2239327c5edb3a432268e5831'') = Inr True"
  by (simp_all add: regex_isAddress_def regex_test_JStr test_0x_hex_def is_hex_digit_def)

lemma example_permit_fields:
  "get_prop (JObj example_permit_props) ''owner'' = JStr ''0x3333333333333333333333333333333333333333''"
  "get_prop (JObj example_permit_props) ''spender'' = JStr ''0x4444444444444444444444444444444444444444''"
  "get_prop (JObj example_permit_props) ''value'' = JStr ''1004500''"
  "get_prop (JObj example_permit_props) ''deadline'' = JNum (Num 1763218800)"
  "get_prop (JObj example_permit_props) ''nonce'' = JStr (''0x'' @ replicate 64 (CHR ''b''))"
  "get_prop (JObj example_permit_props) ''sig'' = JStr (''0x'' @ replicate 130 (CHR ''c''))"
  by (simp_all add: example_permit_props_def)

theorem validatePermit_spec_witness:
  "validatePermit regex_isAddress Num 1700000000000 (JObj example_permit_props) = Inr True
   \<and> validatePermit regex_isAddress Num 1763218800000 (JObj example_permit_props) = Inr False
   \<and> validatePermit regex_isAddress Num 1700000000000
        (JObj ((''sig'', JStr (''0x'' @ replicate 129 (CHR ''c''))) # example_permit_props))
       = Inr False"
proof -
  note f = example_permit_fields
  have good: "validatePermit regex_isAddress Num 1700000000000 (JObj example_permit_props) = Inr True"
    using validatePermit_spec [of "JObj example_permit_props" regex_isAddress Num 1700000000000,
        THEN conjunct1]
    by (simp add: f regex_isAddress_examples hex_replicate_b hex_replicate_c del: get_prop.simps)
  have late1: "validatePermit regex_isAddress Num 1763218800000 (JObj example_permit_props) \<noteq> Inr True"
    using validatePermit_spec [of "JObj example_permit_props" regex_isAddress Num 1763218800000,
        THEN conjunct2, THEN conjunct1, rule_format, of "Num 1763218800"]
    by (simp add: f del: get_prop.simps)
  have late2: "\<exists>b. validatePermit regex_isAddress Num 1763218800000 (JObj example_permit_props) = Inr b"
    using validatePermit_spec [of "JObj example_permit_props" regex_isAddress Num 1763218800000,
        THEN conjunct1]
    by (simp add: f regex_isAddress_examples del: get_prop.simps)
  from late1 late2 have late:
    "validatePermit regex_isAddress Num 1763218800000 (JObj example_permit_props) = Inr False"
    by auto
  have s: "get_prop (JObj ((''sig'', JStr (''0x'' @ replicate 129 (CHR ''c''))) # example_permit_props))
        ''sig'' = JStr (''0x'' @ replicate 129 (CHR ''c''))
      \<and> length (''0x'' @ replicate 129 (CHR ''c'')) \<noteq> 132"
    by simp
  have short1: "validatePermit regex_isAddress Num 1700000000000
        (JObj ((''sig'', JStr (''0x'' @ replicate 129 (CHR ''c''))) # example_permit_props))
       \<noteq> Inr True"
    using s validatePermit_spec [of
        "JObj ((''sig'', JStr (''0x'' @ replicate 129 (CHR ''c''))) # example_permit_props)"
        regex_isAddress Num 1700000000000]
    by blast
  have h: "absent_or_string (get_prop
          (JObj ((''sig'', JStr (''0x'' @ replicate 129 (CHR ''c''))) # example_permit_props)) ''sig'')"
    "absent_or_string (get_prop
          (JObj ((''sig'', JStr (''0x'' @ replicate 129 (CHR ''c''))) # example_permit_props)) ''nonce'')"
    "absent_or_number (get_prop
          (JObj ((''sig'', JStr (''0x'' @ replicate 129 (CHR ''c''))) # example_permit_props)) ''deadline'')"
    "\<forall>e. regex_isAddress (get_prop
          (JObj ((''sig'', JStr (''0x'' @ replicate 129 (CHR ''c''))) # example_permit_props)) ''owner'')
        \<noteq> Inl e"
    "\<forall>e. regex_isAddress (get_prop
          (JObj ((''sig'', JStr (''0x'' @ replicate 129 (CHR ''c''))) # example_permit_props)) ''spender'')
        \<noteq> Inl e"
    by (simp_all add: example_permit_props_def regex_isAddress_examples)
  have short2: "\<exists>b. validatePermit regex_isAddress Num 1700000000000
        (JObj ((''sig'', JStr (''0x'' @ replicate 129 (CHR ''c''))) # example_permit_props))
       = Inr b"
    using h validatePermit_spec [of
        "JObj ((''sig'', JStr (''0x'' @ replicate 129 (CHR ''c''))) # example_permit_props)"
        regex_isAddress Num 1700000000000]
    by blast
  from short1 short2 have short: "validatePermit regex_isAddress Num 1700000000000
        (JObj ((''sig'', JStr (''0x'' @ replicate 129 (CHR ''c''))) # example_permit_props))
       = Inr False"
    by auto
  from good late short show ?thesis by blast
qed

lemma string_to_number_abc: "string_to_number nearest ''abc'' = NaN"
  by (simp add: string_to_number_def trim_def is_white_space_def decimal_literal_def
      is_digit_def Let_def)

text \<open>
  A permit whose deadline is the string \<open>abc\<close>, well-formed otherwise. The string is
  truthy, \<open>permit.deadline <= now\<close> converts it to \<open>NaN\<close> and is false, and the permit is
  accepted, although its deadline is not greater than the current time.
\<close>

theorem validatePermit_accepts_unreadable_deadline:
  "get_prop (JObj ((''deadline'', JStr ''abc'') # example_permit_props)) ''deadline'' = JStr ''abc''
   \<and> validatePermit regex_isAddress Num 1700000000000
        (JObj ((''deadline'', JStr ''abc'') # example_permit_props)) = Inr True
   \<and> js_ToNumber Num (JStr ''abc'') = Inr NaN
   \<and> \<not> number_gt NaN (Num (of_int (unix_seconds 1700000000000)))"
proof -
  have fields:
    "get_prop (JObj ((''deadline'', JStr ''abc'') # example_permit_props)) ''owner''
       = JStr ''0x3333333333333333333333333333333333333333''"
    "get_prop (JObj ((''deadline'', JStr ''abc'') # example_permit_props)) ''spender''
       = JStr ''0x4444444444444444444444444444444444444444''"
    "get_prop (JObj ((''deadline'', JStr ''abc'') # example_permit_props)) ''value''
       = JStr ''1004500''"
    "get_prop (JObj ((''deadline'', JStr ''abc'') # example_permit_props)) ''deadline''
       = JStr ''abc''"
    "get_prop (JObj ((''deadline'', JStr ''abc'') # example_permit_props)) ''nonce''
       = JStr (''0x'' @ replicate 64 (CHR ''b''))"
    "get_prop (JObj ((''deadline'', JStr ''abc'') # example_permit_props)) ''sig''
       = JStr (''0x'' @ replicate 130 (CHR ''c''))"
    by (simp_all add: example_permit_props_def)
  have conv: "js_ToNumber Num (JStr ''abc'') = Inr NaN"
    by (simp add: js_ToNumber_def string_to_number_abc)
  have fmt: "test_0x_hex 130 (CHR ''0'' # CHR ''x'' # replicate 130 (CHR ''c''))"
    "test_0x_hex 64 (CHR ''0'' # CHR ''x'' # replicate 64 (CHR ''b''))"
    by (simp_all add: test_0x_hex_def hex_replicate_b hex_replicate_c)
  have run: "validatePermit regex_isAddress Num 1700000000000
        (JObj ((''deadline'', JStr ''abc'') # example_permit_props)) = Inr True"
    unfolding validatePermit_def permit_fields_truthy_iff fields
    by (simp add: validateWalletAddress_def regex_isAddress_examples regex_test_JStr fmt
        js_le_int_def conv)
  from fields(4) conv run show ?thesis by simp
qed

text \<open>The result of validateRequirements once the argument is an object with the six fields.\<close>

lemma validateRequirements_checked:
  assumes "truthy r" "typeof_object r"
    "list_all (\<lambda>field. truthy (get_prop r field)) requirements_requiredFields"
    "get_prop r ''network'' = JStr ''arbitrum''"
  shows "validateRequirements isAddress r =
     (case isAddress (get_prop r ''recipient'') of
        Inl e \<Rightarrow> Inl e
      | Inr recipient_ok \<Rightarrow>
          if \<not> recipient_ok then Inr False
          else (case isAddress (get_prop r ''token'') of
                  Inl e \<Rightarrow> Inl e
                | Inr token_ok \<Rightarrow> Inr token_ok))"
  using assms
  by (simp add: validateRequirements_def validateWalletAddress_def split: sum.splits)

lemma validateRequirements_unchecked:
  assumes "\<not> truthy r \<or> \<not> typeof_object r
    \<or> \<not> list_all (\<lambda>field. truthy (get_prop r field)) requirements_requiredFields
    \<or> get_prop r ''network'' \<noteq> JStr ''arbitrum''"
  shows "validateRequirements isAddress r = Inr False"
  using assms by (auto simp: validateRequirements_def)

lemma validateRequirements_false_iff:
  "validateRequirements isAddress r = Inr False \<longleftrightarrow>
     \<not> truthy r \<or> \<not> typeof_object r
     \<or> \<not> list_all (\<lambda>field. truthy (get_prop r field)) requirements_requiredFields
     \<or> get_prop r ''network'' \<noteq> JStr ''arbitrum''
     \<or> isAddress (get_prop r ''recipient'') = Inr False
     \<or> (isAddress (get_prop r ''recipient'') = Inr True
         \<and> isAddress (get_prop r ''token'') = Inr False)"
proof (cases "truthy r \<and> typeof_object r
    \<and> list_all (\<lambda>field. truthy (get_prop r field)) requirements_requiredFields
    \<and> get_prop r ''network'' = JStr ''arbitrum''")
  case True
  then show ?thesis
    by (auto simp: validateRequirements_checked split: sum.splits)
next
  case False
  then show ?thesis using validateRequirements_unchecked [of r isAddress] by auto
qed

lemma validateRequirements_raises_iff:
  "validateRequirements isAddress r = Inl e \<longleftrightarrow>
     truthy r \<and> typeof_object r
     \<and> list_all (\<lambda>field. truthy (get_prop r field)) requirements_requiredFields
     \<and> get_prop r ''network'' = JStr ''arbitrum''
     \<and> (isAddress (get_prop r ''recipient'') = Inl e
         \<or> (isAddress (get_prop r ''recipient'') = Inr True
             \<and> isAddress (get_prop r ''token'') = Inl e))"
proof (cases "truthy r \<and> typeof_object r
    \<and> list_all (\<lambda>field. truthy (get_prop r field)) requirements_requiredFields
    \<and> get_prop r ''network'' = JStr ''arbitrum''")
  case True
  then show ?thesis
    by (auto simp: validateRequirements_checked split: sum.splits)
next
  case False
  then show ?thesis using validateRequirements_unchecked [of r isAddress] by auto
qed

lemma validateRequirements_any_deadline:
  assumes "truthy d" "truthy d'"
  shows "validateRequirements isAddress (JObj ((''deadline'', d) # props))
       = validateRequirements isAddress (JObj ((''deadline'', d') # props))"
  using assms
  by (simp add: validateRequirements_def requirements_requiredFields_def
      validateWalletAddress_def split: sum.splits)

text \<open>
  C6. The claim: \<open>validateRequirements\<close> returns false exactly when one of network,
  token, recipient, amount, nonce and deadline is absent or falsy, or the network is not
  \<open>arbitrum\<close>, or recipient or token is not a valid address; it never raises; and it does
  not check the freshness of the deadline. The parameter has the type \<open>any\<close>, the
  recipient and the token go to \<open>isAddress\<close> as they are, and no \<open>try\<close> block surrounds the
  calls: when \<open>isAddress\<close> throws, so does \<open>validateRequirements\<close>.

  As proved: the result is false exactly when the argument is not an object, or one of
  the six fields is falsy, or the network is not \<open>arbitrum\<close>, or \<open>isAddress\<close> rejects the
  recipient, or accepts the recipient and rejects the token. \<open>validateRequirements\<close>
  throws exactly when the checks before the addresses pass and \<open>isAddress\<close> throws on the
  recipient, or accepts the recipient and throws on the token. When \<open>isAddress\<close> throws
  on neither, the result is a boolean, and it is false exactly when the argument is not
  an object, a field is falsy, the network is not \<open>arbitrum\<close>, or \<open>isAddress\<close> rejects the
  recipient or the token. The function reads no clock, and two requirements that differ
  only in their truthy deadlines get the same result.
\<close>

theorem validateRequirements_spec:
  "(validateRequirements isAddress requirements = Inr False \<longleftrightarrow>
      \<not> truthy requirements \<or> \<not> typeof_object requirements
      \<or> \<not> truthy (get_prop requirements ''network'')
      \<or> \<not> truthy (get_prop requirements ''token'')
      \<or> \<not> truthy (get_prop requirements ''recipient'')
      \<or> \<not> truthy (get_prop requirements ''amount'')
      \<or> \<not> truthy (get_prop requirements ''nonce'')
      \<or> \<not> truthy (get_prop requirements ''deadline'')
      \<or> get_prop requirements ''network'' \<noteq> JStr ''arbitrum''
      \<or> isAddress (get_prop requirements ''recipient'') = Inr False
      \<or> (isAddress (get_prop requirements ''recipient'') = Inr True
          \<and> isAddress (get_prop requirements ''token'') = Inr False))
   \<and> (\<forall>e. validateRequirements isAddress requirements = Inl e \<longleftrightarrow>
         truthy requirements \<and> typeof_object requirements
         \<and> truthy (get_prop requirements ''network'')
         \<and> truthy (get_prop requirements ''token'')
         \<and> truthy (get_prop requirements ''recipient'')
         \<and> truthy (get_prop requirements ''amount'')
         \<and> truthy (get_prop requirements ''nonce'')
         \<and> truthy (get_prop requirements ''deadline'')
         \<and> get_prop requirements ''network'' = JStr ''arbitrum''
         \<and> (isAddress (get_prop requirements ''recipient'') = Inl e
             \<or> (isAddress (get_prop requirements ''recipient'') = Inr True
                 \<and> isAddress (get_prop requirements ''token'') = Inl e)))
   \<and> ((\<forall>e. isAddress (get_prop requirements ''recipient'') \<noteq> Inl e)
        \<and> (\<forall>e. isAddress (get_prop requirements ''token'') \<noteq> Inl e)
       \<longrightarrow> (\<exists>b. validateRequirements isAddress requirements = Inr b)
           \<and> (validateRequirements isAddress requirements = Inr False \<longleftrightarrow>
                \<not> truthy requirements \<or> \<not> typeof_object requirements
                \<or> \<not> truthy (get_prop requirements ''network'')
                \<or> \<not> truthy (get_prop requirements ''token'')
                \<or> \<not> truthy (get_prop requirements ''recipient'')
                \<or> \<not> truthy (get_prop requirements ''amount'')
                \<or> \<not> truthy (get_prop requirements ''nonce'')
                \<or> \<not> truthy (get_prop requirements ''deadline'')
                \<or> get_prop requirements ''network'' \<noteq> JStr ''arbitrum''
                \<or> isAddress (get_prop requirements ''recipient'') = Inr False
                \<or> isAddress (get_prop requirements ''token'') = Inr False))
   \<and> (\<forall>props d d'. truthy d \<and> truthy d' \<longrightarrow>
         validateRequirements isAddress (JObj ((''deadline'', d) # props))
           = validateRequirements isAddress (JObj ((''deadline'', d') # props)))"
proof (intro conjI allI impI)
  note fi = validateRequirements_false_iff [of isAddress requirements,
      unfolded requirements_fields_truthy_iff]
  show f: "validateRequirements isAddress requirements = Inr False \<longleftrightarrow>
      \<not> truthy requirements \<or> \<not> typeof_object requirements
      \<or> \<not> truthy (get_prop requirements ''network'')
      \<or> \<not> truthy (get_prop requirements ''token'')
      \<or> \<not> truthy (get_prop requirements ''recipient'')
      \<or> \<not> truthy (get_prop requirements ''amount'')
      \<or> \<not> truthy (get_prop requirements ''nonce'')
      \<or> \<not> truthy (get_prop requirements ''deadline'')
      \<or> get_prop requirements ''network'' \<noteq> JStr ''arbitrum''
      \<or> isAddress (get_prop requirements ''recipient'') = Inr False
      \<or> (isAddress (get_prop requirements ''recipient'') = Inr True
          \<and> isAddress (get_prop requirements ''token'') = Inr False)"
    using fi by blast
  {
    assume a: "(\<forall>e. isAddress (get_prop requirements ''recipient'') \<noteq> Inl e)
        \<and> (\<forall>e. isAddress (get_prop requirements ''token'') \<noteq> Inl e)"
    from a have "\<forall>e. validateRequirements isAddress requirements \<noteq> Inl e"
      using validateRequirements_raises_iff [of isAddress requirements] by blast
    then show "\<exists>b. validateRequirements isAddress requirements = Inr b"
      by (cases "validateRequirements isAddress requirements") auto
    from a obtain rb tb where rt: "isAddress (get_prop requirements ''recipient'') = Inr rb"
      "isAddress (get_prop requirements ''token'') = Inr tb"
      by (metis sum.exhaust)
    show "validateRequirements isAddress requirements = Inr False \<longleftrightarrow>
                \<not> truthy requirements \<or> \<not> typeof_object requirements
                \<or> \<not> truthy (get_prop requirements ''network'')
                \<or> \<not> truthy (get_prop requirements ''token'')
                \<or> \<not> truthy (get_prop requirements ''recipient'')
                \<or> \<not> truthy (get_prop requirements ''amount'')
                \<or> \<not> truthy (get_prop requirements ''nonce'')
                \<or> \<not> truthy (get_prop requirements ''deadline'')
                \<or> get_prop requirements ''network'' \<noteq> JStr ''arbitrum''
                \<or> isAddress (get_prop requirements ''recipient'') = Inr False
                \<or> isAddress (get_prop requirements ''token'') = Inr False"
      unfolding f rt by (cases rb; cases tb) simp_all
  }
next
  fix e
  show "validateRequirements isAddress requirements = Inl e \<longleftrightarrow>
         truthy requirements \<and> typeof_object requirements
         \<and> truthy (get_prop requirements ''network'')
         \<and> truthy (get_prop requirements ''token'')
         \<and> truthy (get_prop requirements ''recipient'')
         \<and> truthy (get_prop requirements ''amount'')
         \<and> truthy (get_prop requirements ''nonce'')
         \<and> truthy (get_prop requirements ''deadline'')
         \<and> get_prop requirements ''network'' = JStr ''arbitrum''
         \<and> (isAddress (get_prop requirements ''recipient'') = Inl e
             \<or> (isAddress (get_prop requirements ''recipient'') = Inr True
                 \<and> isAddress (get_prop requirements ''token'') = Inl e))"
    using validateRequirements_raises_iff [of isAddress requirements e,
        unfolded requirements_fields_truthy_iff] by blast
next
  fix props d d'
  assume "truthy d \<and> truthy d'"
  then show "validateRequirements isAddress (JObj ((''deadline'', d) # props))
           = validateRequirements isAddress (JObj ((''deadline'', d') # props))"
    using validateRequirements_any_deadline [of d d' isAddress props] by blast
qed

theorem validateRequirements_spec_witness:
  "validateRequirements regex_isAddress (JObj example_requirements_props) = Inr True
   \<and> validateRequirements regex_isAddress
        (JObj ((''deadline'', JNum (Num 1)) # example_requirements_props)) = Inr True
   \<and> validateRequirements regex_isAddress
        (JObj ((''deadline'', JNum (Num 1)) # example_requirements_props))
       = validateRequirements regex_isAddress
        (JObj ((''deadline'', JNum (Num 4102444800)) # example_requirements_props))
   \<and> validateRequirements regex_isAddress
        (JObj ((''network'', JStr ''ethereum'') # example_requirements_props)) = Inr False"
proof -
  have accepted: "validateRequirements regex_isAddress r = Inr True"
    if h: "(\<forall>e. regex_isAddress (get_prop r ''recipient'') \<noteq> Inl e)
        \<and> (\<forall>e. regex_isAddress (get_prop r ''token'') \<noteq> Inl e)"
      and nf: "\<not> (\<not> truthy r \<or> \<not> typeof_object r
      \<or> \<not> truthy (get_prop r ''network'')
      \<or> \<not> truthy (get_prop r ''token'')
      \<or> \<not> truthy (get_prop r ''recipient'')
      \<or> \<not> truthy (get_prop r ''amount'')
      \<or> \<not> truthy (get_prop r ''nonce'')
      \<or> \<not> truthy (get_prop r ''deadline'')
      \<or> get_prop r ''network'' \<noteq> JStr ''arbitrum''
      \<or> regex_isAddress (get_prop r ''recipient'') = Inr False
      \<or> regex_isAddress (get_prop r ''token'') = Inr False)"
    for r
  proof -
    note s = validateRequirements_spec [of regex_isAddress r]
    from s h have "\<exists>b. validateRequirements regex_isAddress r = Inr b" by blast
    moreover from s h nf have "validateRequirements regex_isAddress r \<noteq> Inr False" by blast
    ultimately show ?thesis by auto
  qed
  have good: "validateRequirements regex_isAddress (JObj example_requirements_props) = Inr True"
    by (rule accepted) (simp_all add: example_requirements_props_def regex_isAddress_examples)
  have past: "validateRequirements regex_isAddress
        (JObj ((''deadline'', JNum (Num 1)) # example_requirements_props)) = Inr True"
    by (rule accepted) (simp_all add: example_requirements_props_def regex_isAddress_examples)
  have "truthy (JNum (Num 1)) \<and> truthy (JNum (Num 4102444800))" by simp
  with validateRequirements_spec [of regex_isAddress "JObj example_requirements_props"]
  have same: "validateRequirements regex_isAddress
        (JObj ((''deadline'', JNum (Num 1)) # example_requirements_props))
      = validateRequirements regex_isAddress
        (JObj ((''deadline'', JNum (Num 4102444800)) # example_requirements_props))"
    by blast
  have "get_prop (JObj ((''network'', JStr ''ethereum'') # example_requirements_props)) ''network''
      \<noteq> JStr ''arbitrum''"
    by simp
  with validateRequirements_spec [of regex_isAddress
      "JObj ((''network'', JStr ''ethereum'') # example_requirements_props)"]
  have other: "validateRequirements regex_isAddress
        (JObj ((''network'', JStr ''ethereum'') # example_requirements_props)) = Inr False"
    by blast
  from good past same other show ?thesis by blast
qed

text \<open>
  Requirements whose recipient is the object \<open>{"toString": 1}\<close>, well-formed otherwise.
  The recipient is truthy; an \<open>isAddress\<close> that tests the format of its argument converts
  it to a string, which throws a \<open>TypeError\<close>, and \<open>validateRequirements\<close> throws it on.
\<close>

theorem validateRequirements_raises_on_object_recipient:
  "get_prop (JObj ((''recipient'', JObj [(''toString'', JNum (Num 1))]) # example_requirements_props))
      ''recipient'' = JObj [(''toString'', JNum (Num 1))]
   \<and> regex_isAddress (JObj [(''toString'', JNum (Num 1))])
       = Inl ''TypeError: Cannot convert object to primitive value''
   \<and> validateRequirements regex_isAddress
        (JObj ((''recipient'', JObj [(''toString'', JNum (Num 1))]) # example_requirements_props))
       = Inl ''TypeError: Cannot convert object to primitive value''"
  by (simp add: validateRequirements_def requirements_requiredFields_def
      example_requirements_props_def validateWalletAddress_def regex_isAddress_def
      regex_test_0x_hex_def type_error_def)

section \<open>Claims about the store\<close>

lemma order_created_desc_head:
  assumes "rows \<noteq> []"
  shows "\<exists>r rest. order_created_desc rows = r # rest \<and> r \<in> set rows
           \<and> (\<forall>x \<in> set rows. ds_created_at x \<le> ds_created_at r)"
proof -
  let ?f = "\<lambda>d. - ds_created_at d"
  let ?ys = "sort_key ?f rows"
  from assms have "length ?ys \<noteq> 0" by simp
  then obtain r rest where ys: "?ys = r # rest" by (cases ?ys) auto
  have "sorted (map ?f ?ys)" by (rule sorted_sort_key)
  with ys have le: "\<forall>y \<in> set rest. ?f r \<le> ?f y" by simp
  have mem: "set ?ys = set rows" by simp
  with ys have "r \<in> set rows" by auto
  moreover have "\<forall>x \<in> set rows. ds_created_at x \<le> ds_created_at r"
  proof
    fix x assume "x \<in> set rows"
    with mem ys have "x = r \<or> x \<in> set rest" by auto
    with le show "ds_created_at x \<le> ds_created_at r" by auto
  qed
  ultimately show ?thesis using ys by (simp add: order_created_desc_def)
qed

lemma take1_order_created_desc:
  assumes "rows \<noteq> []"
  shows "\<exists>r. take 1 (order_created_desc rows) = [r] \<and> r \<in> set rows
           \<and> (\<forall>x \<in> set rows. ds_created_at x \<le> ds_created_at r)"
  using order_created_desc_head [OF assms] by auto

lemma order_created_desc_Nil: "order_created_desc [] = []"
  by (simp add: order_created_desc_def)

text \<open>
  C8. When the store answers its queries, \<open>getLatestSharedDataset\<close> returns a dataset
  created last among those whose expiry is in the future when there is one; when the
  store is not empty and every dataset is expired it returns a dataset created last among
  all of them; and when the store is empty it fails with the error that no shared
  dataset is available.
\<close>

theorem getLatestSharedDataset_policy:
  "(fault (SelectActiveDatasets now) = None
      \<and> (\<exists>row \<in> set (shared_datasets d). ds_expires_at row > now)
     \<longrightarrow> (\<exists>r. fst (getLatestSharedDataset fault d now) = Inr r
              \<and> r \<in> set (shared_datasets d) \<and> ds_expires_at r > now
              \<and> (\<forall>row \<in> set (shared_datasets d).
                    ds_expires_at row > now \<longrightarrow> ds_created_at row \<le> ds_created_at r)))
   \<and> (fault (SelectActiveDatasets now) = None \<and> fault SelectLatestDataset = None
      \<and> shared_datasets d \<noteq> []
      \<and> (\<forall>row \<in> set (shared_datasets d). ds_expires_at row \<le> now)
     \<longrightarrow> (\<exists>r. fst (getLatestSharedDataset fault d now) = Inr r
              \<and> r \<in> set (shared_datasets d)
              \<and> (\<forall>row \<in> set (shared_datasets d). ds_created_at row \<le> ds_created_at r)))
   \<and> (fault (SelectActiveDatasets now) = None \<and> fault SelectLatestDataset = None
      \<and> shared_datasets d = []
     \<longrightarrow> fst (getLatestSharedDataset fault d now) =
           Inl ''No shared dataset available. Pipeline may not have run yet.'')"
proof (intro conjI impI)
  assume h: "fault (SelectActiveDatasets now) = None
      \<and> (\<exists>row \<in> set (shared_datasets d). ds_expires_at row > now)"
  let ?act = "filter (\<lambda>row. ds_expires_at row > now) (shared_datasets d)"
  from h have "?act \<noteq> []" by (auto simp: filter_empty_conv)
  from take1_order_created_desc [OF this]
  obtain r where r: "take 1 (order_created_desc ?act) = [r]" "r \<in> set ?act"
    "\<forall>x \<in> set ?act. ds_created_at x \<le> ds_created_at r" by blast
  from h r(1) have "fst (getLatestSharedDataset fault d now) = Inr r"
    by (simp add: getLatestSharedDataset_def select_active_datasets_def Let_def)
  with r(2,3) show "\<exists>r. fst (getLatestSharedDataset fault d now) = Inr r
              \<and> r \<in> set (shared_datasets d) \<and> ds_expires_at r > now
              \<and> (\<forall>row \<in> set (shared_datasets d).
                    ds_expires_at row > now \<longrightarrow> ds_created_at row \<le> ds_created_at r)"
    by auto
next
  assume h: "fault (SelectActiveDatasets now) = None \<and> fault SelectLatestDataset = None
      \<and> shared_datasets d \<noteq> []
      \<and> (\<forall>row \<in> set (shared_datasets d). ds_expires_at row \<le> now)"
  then have none: "filter (\<lambda>row. ds_expires_at row > now) (shared_datasets d) = []"
    by (auto simp: filter_empty_conv)
  from h have "shared_datasets d \<noteq> []" by simp
  from take1_order_created_desc [OF this]
  obtain r where r: "take 1 (order_created_desc (shared_datasets d)) = [r]"
    "r \<in> set (shared_datasets d)"
    "\<forall>x \<in> set (shared_datasets d). ds_created_at x \<le> ds_created_at r" by blast
  from h none r(1) have "fst (getLatestSharedDataset fault d now) = Inr r"
    by (simp add: getLatestSharedDataset_def select_active_datasets_def
        select_latest_dataset_def Let_def order_created_desc_Nil)
  with r(2,3) show "\<exists>r. fst (getLatestSharedDataset fault d now) = Inr r
              \<and> r \<in> set (shared_datasets d)
              \<and> (\<forall>row \<in> set (shared_datasets d). ds_created_at row \<le> ds_created_at r)"
    by auto
next
  assume h: "fault (SelectActiveDatasets now) = None \<and> fault SelectLatestDataset = None
      \<and> shared_datasets d = []"
  then show "fst (getLatestSharedDataset fault d now) =
           Inl ''No shared dataset available. Pipeline may not have run yet.''"
    by (simp add: getLatestSharedDataset_def select_active_datasets_def
        select_latest_dataset_def Let_def order_created_desc_Nil)
qed

text \<open>
  In the example store at time 7000 only the second dataset is unexpired and it is
  returned, though the third was created later; at time 10000 all are expired and the
  third is returned; from an empty store the call fails.
\<close>

theorem getLatestSharedDataset_policy_witness:
  "fst (getLatestSharedDataset (\<lambda>q. None) example_db 7000) = Inr (dataset_row ''second'' 3000 9000)
   \<and> fst (getLatestSharedDataset (\<lambda>q. None) example_db 10000) = Inr (dataset_row ''third'' 5000 6000)
   \<and> fst (getLatestSharedDataset (\<lambda>q. None) (example_db\<lparr>shared_datasets := []\<rparr>) 7000) =
       Inl ''No shared dataset available. Pipeline may not have run yet.''"
proof -
  have rows: "shared_datasets example_db =
      [dataset_row ''first'' 1000 2000, dataset_row ''second'' 3000 9000,
       dataset_row ''third'' 5000 6000]"
    by (simp add: example_db_def)
  have "\<exists>r. fst (getLatestSharedDataset (\<lambda>q. None) example_db 7000) = Inr r
              \<and> r \<in> set (shared_datasets example_db) \<and> ds_expires_at r > 7000"
    using getLatestSharedDataset_policy [of "\<lambda>q. None" 7000 example_db, THEN conjunct1]
    by (auto simp: rows dataset_row_def)
  then have active: "fst (getLatestSharedDataset (\<lambda>q. None) example_db 7000)
      = Inr (dataset_row ''second'' 3000 9000)"
    by (auto simp: rows dataset_row_def)
  have "\<exists>r. fst (getLatestSharedDataset (\<lambda>q. None) example_db 10000) = Inr r
              \<and> r \<in> set (shared_datasets example_db)
              \<and> (\<forall>row \<in> set (shared_datasets example_db). ds_created_at row \<le> ds_created_at r)"
    using getLatestSharedDataset_policy [of "\<lambda>q. None" 10000 example_db,
        THEN conjunct2, THEN conjunct1]
    by (simp add: rows dataset_row_def)
  then have expired: "fst (getLatestSharedDataset (\<lambda>q. None) example_db 10000)
      = Inr (dataset_row ''third'' 5000 6000)"
    by (auto simp: rows dataset_row_def)
  have empty: "fst (getLatestSharedDataset (\<lambda>q. None) (example_db\<lparr>shared_datasets := []\<rparr>) 7000) =
       Inl ''No shared dataset available. Pipeline may not have run yet.''"
    using getLatestSharedDataset_policy [of "\<lambda>q. None" 7000 "example_db\<lparr>shared_datasets := []\<rparr>",
        THEN conjunct2, THEN conjunct2]
    by simp
  from active expired empty show ?thesis by blast
qed

lemma take1_filter_none:
  "(\<forall>row \<in> set rows. \<not> P row) \<Longrightarrow> take (Suc 0) (map f (filter P rows)) = []"
  by (simp add: filter_empty_conv [THEN iffD2])

lemma take1_filter_find:
  "find P rows = Some row \<Longrightarrow> take (Suc 0) (map f (filter P rows)) = [f row]"
  by (induction rows) (auto split: if_splits)

text \<open>
  C9. \<open>grantDatasetAccess\<close> fails with the error that the dataset expiration cannot be
  got, inserting nothing, when the lookup of the dataset fails or finds no row with the
  given id. Otherwise it sends exactly one insert, of a row whose \<open>valid_until\<close> is the
  \<open>expires_at\<close> of the row found; when the store accepts the insert, the entitlement
  returned is the one row added to the table, its \<open>valid_until\<close> is that value, and it
  stays so whatever the datasets table becomes afterwards. When the store refuses the
  insert, the call fails and no row is added.
\<close>

theorem grantDatasetAccess_spec:
  "(fault (SelectDatasetExpiry sharedDatasetId) \<noteq> None
      \<or> (\<forall>row \<in> set (shared_datasets d). ds_id row \<noteq> sharedDatasetId)
     \<longrightarrow> fst (grantDatasetAccess fault d walletAddress sharedDatasetId txHash facilitatorResponse)
            = Inl ''Failed to get shared dataset expiration''
         \<and> entitlements (snd (grantDatasetAccess fault d walletAddress sharedDatasetId txHash
               facilitatorResponse)) = entitlements d
         \<and> query_log (snd (grantDatasetAccess fault d walletAddress sharedDatasetId txHash
               facilitatorResponse)) = query_log d @ [SelectDatasetExpiry sharedDatasetId])
   \<and> (\<forall>row. fault (SelectDatasetExpiry sharedDatasetId) = None
          \<and> find (\<lambda>row. ds_id row = sharedDatasetId) (shared_datasets d) = Some row
        \<longrightarrow> query_log (snd (grantDatasetAccess fault d walletAddress sharedDatasetId txHash
                  facilitatorResponse)) =
              query_log d @
                [SelectDatasetExpiry sharedDatasetId,
                 InsertEntitlement
                   \<lparr> ins_wallet_address = walletAddress, ins_shared_dataset_id = sharedDatasetId,
                     ins_tx_hash = txHash, ins_facilitator_response = facilitatorResponse,
                     ins_valid_until = ds_expires_at row \<rparr>]
            \<and> (fault (InsertEntitlement
                   \<lparr> ins_wallet_address = walletAddress, ins_shared_dataset_id = sharedDatasetId,
                     ins_tx_hash = txHash, ins_facilitator_response = facilitatorResponse,
                     ins_valid_until = ds_expires_at row \<rparr>) = None
                 \<longrightarrow> (\<exists>e. fst (grantDatasetAccess fault d walletAddress sharedDatasetId txHash
                              facilitatorResponse) = Inr e
                         \<and> entitlements (snd (grantDatasetAccess fault d walletAddress
                              sharedDatasetId txHash facilitatorResponse)) = entitlements d @ [e]
                         \<and> ent_valid_until e = ds_expires_at row
                         \<and> ent_wallet_address e = walletAddress
                         \<and> ent_shared_dataset_id e = sharedDatasetId
                         \<and> ent_tx_hash e = txHash
                         \<and> (\<forall>rows'. ent_valid_until
                               (last (entitlements
                                  ((snd (grantDatasetAccess fault d walletAddress sharedDatasetId
                                     txHash facilitatorResponse))\<lparr>shared_datasets := rows'\<rparr>)))
                              = ds_expires_at row)))
            \<and> (\<forall>msg. fault (InsertEntitlement
                   \<lparr> ins_wallet_address = walletAddress, ins_shared_dataset_id = sharedDatasetId,
                     ins_tx_hash = txHash, ins_facilitator_response = facilitatorResponse,
                     ins_valid_until = ds_expires_at row \<rparr>) = Some msg
                 \<longrightarrow> fst (grantDatasetAccess fault d walletAddress sharedDatasetId txHash
                          facilitatorResponse) = Inl (''Failed to create entitlement: '' @ msg)
                     \<and> entitlements (snd (grantDatasetAccess fault d walletAddress
                          sharedDatasetId txHash facilitatorResponse)) = entitlements d))"
proof (intro conjI allI impI)
  assume h: "fault (SelectDatasetExpiry sharedDatasetId) \<noteq> None
      \<or> (\<forall>row \<in> set (shared_datasets d). ds_id row \<noteq> sharedDatasetId)"
  have "grantDatasetAccess fault d walletAddress sharedDatasetId txHash facilitatorResponse =
      (Inl ''Failed to get shared dataset expiration'',
       d\<lparr>query_log := query_log d @ [SelectDatasetExpiry sharedDatasetId]\<rparr>)"
  proof (cases "fault (SelectDatasetExpiry sharedDatasetId)")
    case (Some msg)
    then show ?thesis
      by (simp add: grantDatasetAccess_def select_dataset_expiry_def Let_def)
  next
    case None
    with h have "\<forall>row \<in> set (shared_datasets d). \<not> ds_id row = sharedDatasetId" by simp
    from take1_filter_none [OF this, of ds_expires_at] None show ?thesis
      by (simp add: grantDatasetAccess_def select_dataset_expiry_def Let_def)
  qed
  then show "fst (grantDatasetAccess fault d walletAddress sharedDatasetId txHash facilitatorResponse)
            = Inl ''Failed to get shared dataset expiration''"
    and "entitlements (snd (grantDatasetAccess fault d walletAddress sharedDatasetId txHash
               facilitatorResponse)) = entitlements d"
    and "query_log (snd (grantDatasetAccess fault d walletAddress sharedDatasetId txHash
               facilitatorResponse)) = query_log d @ [SelectDatasetExpiry sharedDatasetId]"
    by simp_all
next
  fix row
  assume h: "fault (SelectDatasetExpiry sharedDatasetId) = None
          \<and> find (\<lambda>row. ds_id row = sharedDatasetId) (shared_datasets d) = Some row"
  then have sel: "take 1 (map ds_expires_at
       (filter (\<lambda>row. ds_id row = sharedDatasetId) (shared_datasets d))) = [ds_expires_at row]"
    by (simp add: take1_filter_find)
  let ?ins = "\<lparr> ins_wallet_address = walletAddress, ins_shared_dataset_id = sharedDatasetId,
                     ins_tx_hash = txHash, ins_facilitator_response = facilitatorResponse,
                     ins_valid_until = ds_expires_at row \<rparr>"
  have run: "grantDatasetAccess fault d walletAddress sharedDatasetId txHash facilitatorResponse =
      (case insert_entitlement fault
              (d\<lparr>query_log := query_log d @ [SelectDatasetExpiry sharedDatasetId]\<rparr>) ?ins of
         (Inl msg, d2) \<Rightarrow> (Inl (''Failed to create entitlement: '' @ msg), d2)
       | (Inr entitlement, d2) \<Rightarrow> (Inr entitlement, d2))"
    using h sel by (simp add: grantDatasetAccess_def select_dataset_expiry_def Let_def)
  show "query_log (snd (grantDatasetAccess fault d walletAddress sharedDatasetId txHash
                  facilitatorResponse)) =
              query_log d @ [SelectDatasetExpiry sharedDatasetId, InsertEntitlement ?ins]"
    unfolding run by (simp add: insert_entitlement_def Let_def split: option.splits)
  {
    assume ok: "fault (InsertEntitlement ?ins) = None"
    show "\<exists>e. fst (grantDatasetAccess fault d walletAddress sharedDatasetId txHash
                              facilitatorResponse) = Inr e
                         \<and> entitlements (snd (grantDatasetAccess fault d walletAddress
                              sharedDatasetId txHash facilitatorResponse)) = entitlements d @ [e]
                         \<and> ent_valid_until e = ds_expires_at row
                         \<and> ent_wallet_address e = walletAddress
                         \<and> ent_shared_dataset_id e = sharedDatasetId
                         \<and> ent_tx_hash e = txHash
                         \<and> (\<forall>rows'. ent_valid_until
                               (last (entitlements
                                  ((snd (grantDatasetAccess fault d walletAddress sharedDatasetId
                                     txHash facilitatorResponse))\<lparr>shared_datasets := rows'\<rparr>)))
                              = ds_expires_at row)"
      unfolding run using ok by (simp add: insert_entitlement_def Let_def)
  }
  {
    fix msg
    assume bad: "fault (InsertEntitlement ?ins) = Some msg"
    then show "fst (grantDatasetAccess fault d walletAddress sharedDatasetId txHash
                          facilitatorResponse) = Inl (''Failed to create entitlement: '' @ msg)"
      and "entitlements (snd (grantDatasetAccess fault d walletAddress
                          sharedDatasetId txHash facilitatorResponse)) = entitlements d"
      unfolding run by (simp_all add: insert_entitlement_def Let_def)
  }
qed

text \<open>
  In the example store, access to the second dataset is granted until 9000, its expiry;
  for an unknown dataset the call fails and no entitlement is inserted.
\<close>

theorem grantDatasetAccess_spec_witness:
  "(\<exists>e. fst (grantDatasetAccess (\<lambda>q. None) example_db
              ''0x3333333333333333333333333333333333333333'' ''second'' ''0xfeed'' None) = Inr e
         \<and> entitlements (snd (grantDatasetAccess (\<lambda>q. None) example_db
              ''0x3333333333333333333333333333333333333333'' ''second'' ''0xfeed'' None)) = [e]
         \<and> ent_valid_until e = 9000)
   \<and> query_log (snd (grantDatasetAccess (\<lambda>q. None) example_db
        ''0x3333333333333333333333333333333333333333'' ''second'' ''0xfeed'' None)) =
       [SelectDatasetExpiry ''second'',
        InsertEntitlement
          \<lparr> ins_wallet_address = ''0x3333333333333333333333333333333333333333'',
            ins_shared_dataset_id = ''second'', ins_tx_hash = ''0xfeed'',
            ins_facilitator_response = None, ins_valid_until = 9000 \<rparr>]
   \<and> fst (grantDatasetAccess (\<lambda>q. None) example_db
        ''0x3333333333333333333333333333333333333333'' ''fourth'' ''0xfeed'' None) =
       Inl ''Failed to get shared dataset expiration''
   \<and> entitlements (snd (grantDatasetAccess (\<lambda>q. None) example_db
        ''0x3333333333333333333333333333333333333333'' ''fourth'' ''0xfeed'' None)) = []"
proof -
  have found: "find (\<lambda>row. ds_id row = ''second'') (shared_datasets example_db)
      = Some (dataset_row ''second'' 3000 9000)"
    by (simp add: example_db_def dataset_row_def)
  have absent: "\<forall>row \<in> set (shared_datasets example_db). ds_id row \<noteq> ''fourth''"
    by (simp add: example_db_def dataset_row_def)
  have start: "entitlements example_db = []" "query_log example_db = []"
    by (simp_all add: example_db_def)
  have expiry: "ds_expires_at (dataset_row ''second'' 3000 9000) = 9000"
    by (simp add: dataset_row_def)
  from grantDatasetAccess_spec [of "\<lambda>q. None" "''second''" example_db
      "''0x3333333333333333333333333333333333333333''" "''0xfeed''" None,
      THEN conjunct2, rule_format, of "dataset_row ''second'' 3000 9000"] found
  have granted: "(\<exists>e. fst (grantDatasetAccess (\<lambda>q. None) example_db
              ''0x3333333333333333333333333333333333333333'' ''second'' ''0xfeed'' None) = Inr e
         \<and> entitlements (snd (grantDatasetAccess (\<lambda>q. None) example_db
              ''0x3333333333333333333333333333333333333333'' ''second'' ''0xfeed'' None)) = [e]
         \<and> ent_valid_until e = 9000)"
    and logged: "query_log (snd (grantDatasetAccess (\<lambda>q. None) example_db
        ''0x3333333333333333333333333333333333333333'' ''second'' ''0xfeed'' None)) =
       [SelectDatasetExpiry ''second'',
        InsertEntitlement
          \<lparr> ins_wallet_address = ''0x3333333333333333333333333333333333333333'',
            ins_shared_dataset_id = ''second'', ins_tx_hash = ''0xfeed'',
            ins_facilitator_response = None, ins_valid_until = 9000 \<rparr>]"
    by (auto simp: start expiry)
  from grantDatasetAccess_spec [of "\<lambda>q. None" "''fourth''" example_db
      "''0x3333333333333333333333333333333333333333''" "''0xfeed''" None,
      THEN conjunct1] absent
  have refused: "fst (grantDatasetAccess (\<lambda>q. None) example_db
        ''0x3333333333333333333333333333333333333333'' ''fourth'' ''0xfeed'' None) =
       Inl ''Failed to get shared dataset expiration''"
    "entitlements (snd (grantDatasetAccess (\<lambda>q. None) example_db
        ''0x3333333333333333333333333333333333333333'' ''fourth'' ''0xfeed'' None)) = []"
    by (simp_all add: start)
  from granted logged refused show ?thesis by blast
qed

end
